theory Spec2Isabelle
  imports Complex_Main "HOL-Library.Log_Nat"
begin

section \<open>Python values, errors and loops\<close>

text \<open>
  The two scripts \<^verbatim>\<open>drawings/generate_dxf.py\<close> and
  \<^verbatim>\<open>drawings/solidworks/generate_step_files.py\<close> compute with Python floats and
  ints. In the geometry, floats are modelled by the reals (exact arithmetic, no
  rounding) and ints by \<open>int\<close>; the design constants are computed in binary64 as
  well, where their exact values are at stake. Every operation of the source that can raise is a branch of the model:
  a true division raises \<open>ZeroDivisionError\<close> on a zero divisor and an index into an empty
  list raises \<open>IndexError\<close>. Divisions by a non-zero literal are written with \<open>/\<close>.
\<close>

datatype py_error = ZeroDivisionError | IndexError

type_synonym point = "real \<times> real"

definition py_truediv :: "real \<Rightarrow> real \<Rightarrow> py_error + real" where
  "py_truediv a b = (if b = 0 then Inl ZeroDivisionError else Inr (a / b))"

text \<open>\<^verbatim>\<open>range(n)\<close>: empty for \<open>n \<le> 0\<close>.\<close>

definition py_range :: "int \<Rightarrow> nat list" where
  "py_range n = [0..<nat n]"

text \<open>
  A \<^verbatim>\<open>for\<close> loop over a list whose body updates the loop state (here always the
  list \<^verbatim>\<open>points\<close>) and may raise; the first error ends the loop.
\<close>

fun for_each :: "('a \<Rightarrow> 's \<Rightarrow> py_error + 's) \<Rightarrow> 'a list \<Rightarrow> 's \<Rightarrow> py_error + 's" where
  "for_each body [] s = Inr s"
| "for_each body (x # xs) s =
     (case body x s of Inl e \<Rightarrow> Inl e | Inr s' \<Rightarrow> for_each body xs s')"

section \<open>Design parameters (module-level constants)\<close>

text \<open>
  Both scripts fix the primary inputs as module-level constants and derive every other
  dimension from them by top-level assignments. The primary inputs are the fields of a
  record, each derived constant is a function of it, and \<open>design\<close> is the record of the
  values the source fixes. \<^verbatim>\<open>MODULE_MM\<close> is the name of \<^verbatim>\<open>MODULE\<close> in
  the STEP script.
\<close>

record primary_inputs =
  GEAR_RATIO :: int
  TOOTH_DIFFERENCE :: int
  MODULE :: real
  OUTPUT_TORQUE :: int

definition design :: primary_inputs where
  "design = \<lparr>GEAR_RATIO = 100, TOOTH_DIFFERENCE = 2, MODULE = 0.4, OUTPUT_TORQUE = 40\<rparr>"

definition Z_FLEX :: "primary_inputs \<Rightarrow> int" where
  "Z_FLEX p = GEAR_RATIO p * TOOTH_DIFFERENCE p"

definition Z_CIRC :: "primary_inputs \<Rightarrow> int" where
  "Z_CIRC p = Z_FLEX p + TOOTH_DIFFERENCE p"

definition D_PITCH_FLEX :: "primary_inputs \<Rightarrow> real" where
  "D_PITCH_FLEX p = real_of_int (Z_FLEX p) * MODULE p"

definition D_PITCH_CIRC :: "primary_inputs \<Rightarrow> real" where
  "D_PITCH_CIRC p = real_of_int (Z_CIRC p) * MODULE p"

definition ADDENDUM :: "primary_inputs \<Rightarrow> real" where
  "ADDENDUM p = 0.8 * MODULE p"

definition DEDENDUM :: "primary_inputs \<Rightarrow> real" where
  "DEDENDUM p = 1.0 * MODULE p"

definition D_OUTER_FLEX :: "primary_inputs \<Rightarrow> real" where
  "D_OUTER_FLEX p = D_PITCH_FLEX p + (2 * ADDENDUM p)"

text \<open>The same derivation in the STEP script.\<close>

definition MODULE_MM :: "primary_inputs \<Rightarrow> real" where
  "MODULE_MM p = MODULE p"

definition ADDENDUM_MM :: "primary_inputs \<Rightarrow> real" where
  "ADDENDUM_MM p = 0.8 * MODULE_MM p"

definition PITCH_DIA_FLEX_MM :: "primary_inputs \<Rightarrow> real" where
  "PITCH_DIA_FLEX_MM p = real_of_int (Z_FLEX p) * MODULE_MM p"

definition PITCH_DIA_CIRC_MM :: "primary_inputs \<Rightarrow> real" where
  "PITCH_DIA_CIRC_MM p = real_of_int (Z_CIRC p) * MODULE_MM p"

definition FLEX_OUTER_DIA :: "primary_inputs \<Rightarrow> real" where
  "FLEX_OUTER_DIA p = PITCH_DIA_FLEX_MM p + (2 * ADDENDUM_MM p)"

section \<open>The design constants in binary64\<close>

text \<open>
  A finite binary64 value is a pair of a mantissa and an exponent, \<open>(m, e)\<close> for
  \<open>m * 2 ^ e\<close>. An operation computes the exact result and rounds it to a mantissa of
  at most 53 bits, to nearest and on a tie to the even mantissa, as IEEE 754 arithmetic
  and Python do. \<open>b64_of_int\<close> is the conversion of an int operand, and
  \<open>b64_literal a b\<close> is the value of a decimal literal \<open>a / b\<close> (\<open>0 \<le> a\<close>, \<open>0 < b\<close>): the
  quotient is developed to at least 55 bits, with one more bit that records a non-zero
  remainder, and rounded once. The exponent range is not modelled (no overflow, no
  subnormal numbers); the constants of the scripts lie between \<open>1/4\<close> and \<open>128\<close>.
\<close>

type_synonym b64 = "int \<times> int"

definition b64_value :: "b64 \<Rightarrow> real" where
  "b64_value x =
     (case x of (m, e) \<Rightarrow>
        if 0 \<le> e then real_of_int m * 2 ^ nat e else real_of_int m / 2 ^ nat (- e))"

definition round_half_even :: "int \<Rightarrow> nat \<Rightarrow> int" where
  "round_half_even m s =
     (if s = 0 then m
      else (let q = m div 2 ^ s; r = m mod 2 ^ s; h = 2 ^ (s - 1)
            in if h < r \<or> (r = h \<and> odd q) then q + 1 else q))"

definition b64_round :: "b64 \<Rightarrow> b64" where
  "b64_round x =
     (case x of (m, e) \<Rightarrow>
        (let s = nat (bitlen \<bar>m\<bar> - 53)
         in (sgn m * round_half_even \<bar>m\<bar> s, e + int s)))"

definition b64_mul :: "b64 \<Rightarrow> b64 \<Rightarrow> b64" where
  "b64_mul x y = b64_round (fst x * fst y, snd x + snd y)"

definition b64_add :: "b64 \<Rightarrow> b64 \<Rightarrow> b64" where
  "b64_add x y =
     (let e = min (snd x) (snd y)
      in b64_round (fst x * 2 ^ nat (snd x - e) + fst y * 2 ^ nat (snd y - e), e))"

definition b64_of_int :: "int \<Rightarrow> b64" where
  "b64_of_int n = b64_round (n, 0)"

definition b64_literal :: "int \<Rightarrow> int \<Rightarrow> b64" where
  "b64_literal a b =
     (let k = nat (55 + bitlen b - bitlen a);
          q = (a * 2 ^ k) div b;
          sticky = (if (a * 2 ^ k) mod b = 0 then 0 else 1)
      in b64_round (2 * q + sticky, - int k - 1))"

text \<open>
  The derivation of the scripts with these operations:
  \<^verbatim>\<open>MODULE = 0.4\<close>, \<^verbatim>\<open>D_PITCH_FLEX = Z_FLEX * MODULE\<close>,
  \<^verbatim>\<open>D_PITCH_CIRC = Z_CIRC * MODULE\<close>, \<^verbatim>\<open>ADDENDUM = 0.8 * MODULE\<close>,
  \<^verbatim>\<open>D_OUTER_FLEX = D_PITCH_FLEX + (2 * ADDENDUM)\<close>, and the same assignments of the
  STEP script under its names. The tooth counts are the integers of the record; the
  module is a binary64 value.
\<close>

definition MODULE_b64 :: b64 where
  "MODULE_b64 = b64_literal 4 10"

definition D_PITCH_FLEX_b64 :: "primary_inputs \<Rightarrow> b64 \<Rightarrow> b64" where
  "D_PITCH_FLEX_b64 p m = b64_mul (b64_of_int (Z_FLEX p)) m"

definition D_PITCH_CIRC_b64 :: "primary_inputs \<Rightarrow> b64 \<Rightarrow> b64" where
  "D_PITCH_CIRC_b64 p m = b64_mul (b64_of_int (Z_CIRC p)) m"

definition ADDENDUM_b64 :: "b64 \<Rightarrow> b64" where
  "ADDENDUM_b64 m = b64_mul (b64_literal 8 10) m"

definition D_OUTER_FLEX_b64 :: "primary_inputs \<Rightarrow> b64 \<Rightarrow> b64" where
  "D_OUTER_FLEX_b64 p m =
     b64_add (D_PITCH_FLEX_b64 p m) (b64_mul (b64_of_int 2) (ADDENDUM_b64 m))"

definition ADDENDUM_MM_b64 :: "b64 \<Rightarrow> b64" where
  "ADDENDUM_MM_b64 m = b64_mul (b64_literal 8 10) m"

definition PITCH_DIA_FLEX_MM_b64 :: "primary_inputs \<Rightarrow> b64 \<Rightarrow> b64" where
  "PITCH_DIA_FLEX_MM_b64 p m = b64_mul (b64_of_int (Z_FLEX p)) m"

definition PITCH_DIA_CIRC_MM_b64 :: "primary_inputs \<Rightarrow> b64 \<Rightarrow> b64" where
  "PITCH_DIA_CIRC_MM_b64 p m = b64_mul (b64_of_int (Z_CIRC p)) m"

definition FLEX_OUTER_DIA_b64 :: "primary_inputs \<Rightarrow> b64 \<Rightarrow> b64" where
  "FLEX_OUTER_DIA_b64 p m =
     b64_add (PITCH_DIA_FLEX_MM_b64 p m) (b64_mul (b64_of_int 2) (ADDENDUM_MM_b64 m))"

section \<open>Single tooth profile of the DXF script\<close>

text \<open>
  \<^verbatim>\<open>generate_tooth_profile(num_points)\<close>: the loop runs over
  \<^verbatim>\<open>range(num_points + 1)\<close>; \<open>tooth_profile_point\<close> is the loop body after
  \<^verbatim>\<open>t = i / num_points\<close>.
\<close>

definition tooth_profile_point :: "primary_inputs \<Rightarrow> real \<Rightarrow> point" where
  "tooth_profile_point p t =
     (let circular_pitch = pi * MODULE p;
          x = (t - 0.5) * circular_pitch;
          y = (if t < 0.5
               then (let angle = pi * (t / 0.5)
                     in - DEDENDUM p + (DEDENDUM p + ADDENDUM p) * (1 - cos angle) / 2)
               else (let angle = pi * ((t - 0.5) / 0.5)
                     in ADDENDUM p - (DEDENDUM p + ADDENDUM p) * (1 - cos angle) / 2))
      in (x, y))"

definition tooth_profile_step ::
  "primary_inputs \<Rightarrow> int \<Rightarrow> nat \<Rightarrow> point list \<Rightarrow> py_error + point list" where
  "tooth_profile_step p num_points i points =
     (case py_truediv (real i) (real_of_int num_points) of
        Inl e \<Rightarrow> Inl e
      | Inr t \<Rightarrow> Inr (points @ [tooth_profile_point p t]))"

definition generate_tooth_profile :: "primary_inputs \<Rightarrow> int \<Rightarrow> py_error + point list" where
  "generate_tooth_profile p num_points =
     for_each (tooth_profile_step p num_points) (py_range (num_points + 1)) []"

section \<open>Radial array projection of the DXF script\<close>

text \<open>
  \<^verbatim>\<open>generate_flex_spline_teeth\<close> and \<^verbatim>\<open>generate_circular_spline_teeth\<close>:
  an outer loop over the teeth and an inner loop over the points of the tooth profile,
  both appending to the one list \<^verbatim>\<open>points\<close>. The argument \<^verbatim>\<open>num_teeth\<close>
  defaults to \<^verbatim>\<open>None\<close>, which selects the tooth count of the design.
\<close>

definition flex_point_step :: "real \<Rightarrow> real \<Rightarrow> point \<Rightarrow> point list \<Rightarrow> py_error + point list" where
  "flex_point_step radius angle_offset pt points =
     (case pt of (px, py) \<Rightarrow>
        (case py_truediv px radius of
           Inl e \<Rightarrow> Inl e
         | Inr tooth_angle \<Rightarrow>
             (let total_angle = angle_offset + tooth_angle;
                  r = radius + py;
                  x = r * cos total_angle;
                  y = r * sin total_angle
              in Inr (points @ [(x, y)]))))"

definition flex_tooth_step ::
  "real \<Rightarrow> int \<Rightarrow> point list \<Rightarrow> nat \<Rightarrow> point list \<Rightarrow> py_error + point list" where
  "flex_tooth_step radius num_teeth tooth_profile tooth points =
     (case py_truediv (2 * pi * real tooth) (real_of_int num_teeth) of
        Inl e \<Rightarrow> Inl e
      | Inr angle_offset \<Rightarrow> for_each (flex_point_step radius angle_offset) tooth_profile points)"

definition generate_flex_spline_teeth ::
  "primary_inputs \<Rightarrow> int option \<Rightarrow> int \<Rightarrow> py_error + point list" where
  "generate_flex_spline_teeth p num_teeth_arg num_points_per_tooth =
     (let num_teeth = (case num_teeth_arg of None \<Rightarrow> Z_FLEX p | Some z \<Rightarrow> z);
          radius = D_PITCH_FLEX p / 2
      in case generate_tooth_profile p num_points_per_tooth of
           Inl e \<Rightarrow> Inl e
         | Inr tooth_profile \<Rightarrow>
             for_each (flex_tooth_step radius num_teeth tooth_profile) (py_range num_teeth) [])"

definition circ_point_step :: "real \<Rightarrow> real \<Rightarrow> point \<Rightarrow> point list \<Rightarrow> py_error + point list" where
  "circ_point_step radius angle_offset pt points =
     (case pt of (px, py) \<Rightarrow>
        (case py_truediv px radius of
           Inl e \<Rightarrow> Inl e
         | Inr tooth_angle \<Rightarrow>
             (let total_angle = angle_offset + tooth_angle;
                  r = radius - py;
                  x = r * cos total_angle;
                  y = r * sin total_angle
              in Inr (points @ [(x, y)]))))"

definition circ_tooth_step ::
  "real \<Rightarrow> int \<Rightarrow> point list \<Rightarrow> nat \<Rightarrow> point list \<Rightarrow> py_error + point list" where
  "circ_tooth_step radius num_teeth tooth_profile tooth points =
     (case py_truediv (2 * pi * real tooth) (real_of_int num_teeth) of
        Inl e \<Rightarrow> Inl e
      | Inr angle_offset \<Rightarrow> for_each (circ_point_step radius angle_offset) tooth_profile points)"

definition generate_circular_spline_teeth ::
  "primary_inputs \<Rightarrow> int option \<Rightarrow> int \<Rightarrow> py_error + point list" where
  "generate_circular_spline_teeth p num_teeth_arg num_points_per_tooth =
     (let num_teeth = (case num_teeth_arg of None \<Rightarrow> Z_CIRC p | Some z \<Rightarrow> z);
          radius = D_PITCH_CIRC p / 2
      in case generate_tooth_profile p num_points_per_tooth of
           Inl e \<Rightarrow> Inl e
         | Inr tooth_profile \<Rightarrow>
             for_each (circ_tooth_step radius num_teeth tooth_profile) (py_range num_teeth) [])"

section \<open>Conic curves of the DXF script\<close>

text \<open>
  \<^verbatim>\<open>generate_ellipse\<close> and \<^verbatim>\<open>generate_circle\<close>: the loop over
  \<^verbatim>\<open>range(num_points)\<close>, then \<^verbatim>\<open>points.append(points[0])\<close>, which raises
  \<open>IndexError\<close> when the loop has appended nothing.
\<close>

definition ellipse_step :: "real \<Rightarrow> real \<Rightarrow> int \<Rightarrow> nat \<Rightarrow> point list \<Rightarrow> py_error + point list" where
  "ellipse_step a b num_points i points =
     (case py_truediv (2 * pi * real i) (real_of_int num_points) of
        Inl e \<Rightarrow> Inl e
      | Inr angle \<Rightarrow>
          (let x = a * cos angle;
               y = b * sin angle
           in Inr (points @ [(x, y)])))"

definition close_points :: "point list \<Rightarrow> py_error + point list" where
  "close_points points =
     (case points of [] \<Rightarrow> Inl IndexError | p0 # _ \<Rightarrow> Inr (points @ [p0]))"

definition generate_ellipse :: "real \<Rightarrow> real \<Rightarrow> int \<Rightarrow> py_error + point list" where
  "generate_ellipse major_axis minor_axis num_points =
     (let a = major_axis / 2;
          b = minor_axis / 2
      in case for_each (ellipse_step a b num_points) (py_range num_points) [] of
           Inl e \<Rightarrow> Inl e
         | Inr points \<Rightarrow> close_points points)"

definition circle_step :: "real \<Rightarrow> int \<Rightarrow> nat \<Rightarrow> point list \<Rightarrow> py_error + point list" where
  "circle_step r num_points i points =
     (case py_truediv (2 * pi * real i) (real_of_int num_points) of
        Inl e \<Rightarrow> Inl e
      | Inr angle \<Rightarrow>
          (let x = r * cos angle;
               y = r * sin angle
           in Inr (points @ [(x, y)])))"

definition generate_circle :: "real \<Rightarrow> int \<Rightarrow> py_error + point list" where
  "generate_circle diameter num_points =
     (let r = diameter / 2
      in case for_each (circle_step r num_points) (py_range num_points) [] of
           Inl e \<Rightarrow> Inl e
         | Inr points \<Rightarrow> close_points points)"

section \<open>S-curve tooth profile of the STEP script\<close>

text \<open>
  \<^verbatim>\<open>generate_s_curve_tooth_points(module, num_points, is_internal, profile_shift)\<close>.
  The locals computed before the loops are functions of the arguments; the two loop
  bodies after \<^verbatim>\<open>t = i / (num_points - 1)\<close> are \<open>s_curve_internal_point\<close> and
  \<open>s_curve_external_point\<close>, and each of the two branches has its own loop. The locals \<^verbatim>\<open>r_tip\<close> and \<^verbatim>\<open>half_points\<close> are
  never read.
\<close>

definition s_pitch :: "real \<Rightarrow> real" where
  "s_pitch modul = pi * modul"

definition s_addendum :: "real \<Rightarrow> real \<Rightarrow> real" where
  "s_addendum modul profile_shift = 0.8 * modul + profile_shift"

definition s_dedendum :: "real \<Rightarrow> real \<Rightarrow> real" where
  "s_dedendum modul profile_shift = 1.0 * modul - profile_shift"

definition s_tooth_width :: "real \<Rightarrow> real" where
  "s_tooth_width modul = s_pitch modul / 2"

definition s_r_root :: "real \<Rightarrow> real" where
  "s_r_root modul = 1.2 * modul"

definition s_curve_internal_point :: "real \<Rightarrow> real \<Rightarrow> real \<Rightarrow> point" where
  "s_curve_internal_point modul profile_shift t =
     (let addendum = s_addendum modul profile_shift;
          dedendum = s_dedendum modul profile_shift;
          tooth_width = s_tooth_width modul;
          r_root = s_r_root modul
      in if t \<le> 0.5
         then (let angle = pi * (1 - 2 * t);
                   x = - tooth_width / 4 + r_root * cos angle * 0.5;
                   y = - dedendum + (addendum + dedendum) * (2 * t)
               in (x, y))
         else (let angle = pi * (2 * t - 1);
                   x = tooth_width / 4 - r_root * cos angle * 0.5;
                   y = addendum - (addendum + dedendum) * (2 * (t - 0.5))
               in (x, y)))"

definition s_curve_external_point :: "real \<Rightarrow> real \<Rightarrow> real \<Rightarrow> point" where
  "s_curve_external_point modul profile_shift t =
     (let addendum = s_addendum modul profile_shift;
          dedendum = s_dedendum modul profile_shift;
          tooth_width = s_tooth_width modul
      in if t \<le> 0.5
         then (let progress = 2 * t;
                   angle = pi * progress / 2;
                   x = - tooth_width / 3 * (1 - progress);
                   y = - dedendum + (addendum + dedendum) * sin angle
               in (x, y))
         else (let progress = 2 * (t - 0.5);
                   angle = pi * (1 - progress) / 2;
                   x = tooth_width / 3 * progress;
                   y = - dedendum + (addendum + dedendum) * sin angle
               in (x, y)))"

definition s_curve_internal_step ::
  "real \<Rightarrow> int \<Rightarrow> real \<Rightarrow> nat \<Rightarrow> point list \<Rightarrow> py_error + point list" where
  "s_curve_internal_step modul num_points profile_shift i points =
     (case py_truediv (real i) (real_of_int (num_points - 1)) of
        Inl e \<Rightarrow> Inl e
      | Inr t \<Rightarrow> Inr (points @ [s_curve_internal_point modul profile_shift t]))"

definition s_curve_external_step ::
  "real \<Rightarrow> int \<Rightarrow> real \<Rightarrow> nat \<Rightarrow> point list \<Rightarrow> py_error + point list" where
  "s_curve_external_step modul num_points profile_shift i points =
     (case py_truediv (real i) (real_of_int (num_points - 1)) of
        Inl e \<Rightarrow> Inl e
      | Inr t \<Rightarrow> Inr (points @ [s_curve_external_point modul profile_shift t]))"

definition generate_s_curve_tooth_points ::
  "real \<Rightarrow> int \<Rightarrow> bool \<Rightarrow> real \<Rightarrow> py_error + point list" where
  "generate_s_curve_tooth_points modul num_points is_internal profile_shift =
     (if is_internal
      then for_each (s_curve_internal_step modul num_points profile_shift) (py_range num_points) []
      else for_each (s_curve_external_step modul num_points profile_shift) (py_range num_points) [])"

section \<open>The projection in the words of the specification\<close>

text \<open>
  The specification (section 4.3) gives the point emitted for tooth \<open>k\<close> of \<open>Z\<close> and a
  local profile point \<open>(px, py)\<close>: the angular offset \<open>2 pi k / Z\<close>, the increment
  \<open>px / r\<close>, and the radius \<open>r + py\<close> for external teeth, \<open>r - py\<close> for internal
  teeth. This definition follows those words; the source's loops are compared with it.
\<close>

definition spec_projection :: "bool \<Rightarrow> real \<Rightarrow> int \<Rightarrow> nat \<Rightarrow> point \<Rightarrow> point" where
  "spec_projection is_internal r Z k pt =
     (case pt of (px, py) \<Rightarrow>
        (let theta_k = 2 * pi * real k / real_of_int Z;
             delta_theta = px / r;
             theta = theta_k + delta_theta;
             r_total = (if is_internal then r - py else r + py)
         in (r_total * cos theta, r_total * sin theta)))"

text \<open>
  Teeth evenly spaced by an angle \<open>phi\<close> are copies of one another turned about the
  origin by \<open>phi\<close>; this is the rotation.
\<close>

definition rotate_point :: "real \<Rightarrow> point \<Rightarrow> point" where
  "rotate_point phi pt =
     (case pt of (x, y) \<Rightarrow> (x * cos phi - y * sin phi, x * sin phi + y * cos phi))"

section \<open>Loops that only append\<close>

lemma for_each_append:
  assumes "\<And>x s. x \<in> set xs \<Longrightarrow> body x s = Inr (s @ g x)"
  shows "for_each body xs s = Inr (s @ concat (map g xs))"
  using assms by (induction xs arbitrary: s) simp_all

lemma length_concat_blocks:
  "(\<And>k. length (g k) = L) \<Longrightarrow> length (concat (map g [0..<Z])) = Z * L"
  by (induction Z) simp_all

lemma nth_concat_blocks:
  assumes len: "\<And>k. length (g k) = L" and k: "k < Z" and j: "j < L"
  shows "concat (map g [0..<Z]) ! (k * L + j) = g k ! j"
  using k
proof (induction Z)
  case 0
  then show ?case by simp
next
  case (Suc Z)
  have l: "length (concat (map g [0..<Z])) = Z * L"
    using len by (rule length_concat_blocks)
  show ?case
  proof (cases "k < Z")
    case True
    then have "Suc k \<le> Z" by simp
    then have "Suc k * L \<le> Z * L" by (rule mult_le_mono1)
    then have "k * L + j < Z * L" using j by simp
    then show ?thesis using Suc.IH [OF True] l by (simp add: nth_append)
  next
    case False
    then have "k = Z" using Suc.prems by simp
    then show ?thesis using l by (simp add: nth_append)
  qed
qed

lemma mirror_rev_map:
  assumes "\<And>i. i < N \<Longrightarrow> f (N - 1 - i) = (- fst (f i), snd (f i))"
  shows "map (\<lambda>(x, y). (- x, y)) (rev (map f [0..<N])) = map f [0..<N]"
proof (rule nth_equalityI)
  show "length (map (\<lambda>(x, y). (- x, y)) (rev (map f [0..<N]))) = length (map f [0..<N])"
    by simp
next
  fix i
  assume "i < length (map (\<lambda>(x, y). (- x, y)) (rev (map f [0..<N])))"
  then have i: "i < N" by simp
  then have j: "N - 1 - i < N" by simp
  have "rev (map f [0..<N]) ! i = map f [0..<N] ! (N - Suc i)"
    using i by (simp add: rev_nth)
  also have "\<dots> = f (N - 1 - i)" using j by simp
  finally have "rev (map f [0..<N]) ! i = f (N - 1 - i)" .
  moreover have "f (N - 1 - (N - 1 - i)) = (- fst (f (N - 1 - i)), snd (f (N - 1 - i)))"
    using assms [OF j] .
  moreover have "N - 1 - (N - 1 - i) = i" using i by simp
  ultimately have "f i = (- fst (rev (map f [0..<N]) ! i), snd (rev (map f [0..<N]) ! i))"
    by simp
  then show "map (\<lambda>(x, y). (- x, y)) (rev (map f [0..<N])) ! i = map f [0..<N] ! i"
    using i by (simp add: case_prod_beta)
qed

section \<open>What the generators return\<close>

lemma tooth_profile_step_ok:
  "n \<noteq> 0 \<Longrightarrow> tooth_profile_step p n i s = Inr (s @ [tooth_profile_point p (real i / real_of_int n)])"
  by (simp add: tooth_profile_step_def py_truediv_def)

lemma generate_tooth_profile_pos:
  assumes "0 < n"
  shows "generate_tooth_profile p n =
    Inr (map (\<lambda>i. tooth_profile_point p (real i / real_of_int n)) [0..<nat (n + 1)])"
proof -
  have "for_each (tooth_profile_step p n) (py_range (n + 1)) [] =
      Inr ([] @ concat (map (\<lambda>i. [tooth_profile_point p (real i / real_of_int n)]) (py_range (n + 1))))"
    using assms by (intro for_each_append) (simp add: tooth_profile_step_ok)
  then show ?thesis
    by (simp add: generate_tooth_profile_def py_range_def)
qed

lemma generate_tooth_profile_zero:
  "generate_tooth_profile p 0 = Inl ZeroDivisionError"
  by (simp add: generate_tooth_profile_def py_range_def tooth_profile_step_def py_truediv_def)

lemma generate_tooth_profile_neg:
  "n < 0 \<Longrightarrow> generate_tooth_profile p n = Inr []"
  by (simp add: generate_tooth_profile_def py_range_def)

lemma ellipse_step_ok:
  "n \<noteq> 0 \<Longrightarrow> ellipse_step a b n i s =
     Inr (s @ [(a * cos (2 * pi * real i / real_of_int n), b * sin (2 * pi * real i / real_of_int n))])"
  by (simp add: ellipse_step_def py_truediv_def)

lemma ellipse_loop:
  assumes "0 < n"
  shows "for_each (ellipse_step a b n) (py_range n) [] =
    Inr (map (\<lambda>i. (a * cos (2 * pi * real i / real_of_int n), b * sin (2 * pi * real i / real_of_int n))) [0..<nat n])"
proof -
  have "for_each (ellipse_step a b n) (py_range n) [] =
      Inr ([] @ concat (map (\<lambda>i. [(a * cos (2 * pi * real i / real_of_int n), b * sin (2 * pi * real i / real_of_int n))]) (py_range n)))"
    using assms by (intro for_each_append) (simp add: ellipse_step_ok)
  then show ?thesis
    by (simp add: py_range_def)
qed

lemma close_points_nonempty:
  "xs \<noteq> [] \<Longrightarrow> close_points xs = Inr (xs @ [xs ! 0])"
  by (cases xs) (simp_all add: close_points_def)

lemma generate_ellipse_pos:
  assumes "0 < n"
  shows "generate_ellipse A B n =
    Inr (map (\<lambda>i. (A / 2 * cos (2 * pi * real i / real_of_int n), B / 2 * sin (2 * pi * real i / real_of_int n))) [0..<nat n]
         @ [(A / 2, 0)])"
proof -
  let ?f = "\<lambda>i. (A / 2 * cos (2 * pi * real i / real_of_int n), B / 2 * sin (2 * pi * real i / real_of_int n))"
  have ne: "map ?f [0..<nat n] \<noteq> []" using assms by simp
  have "map ?f [0..<nat n] ! 0 = ?f 0" using assms by (subst nth_map) simp_all
  then have z: "map ?f [0..<nat n] ! 0 = (A / 2, 0)" by simp
  show ?thesis
    unfolding generate_ellipse_def Let_def ellipse_loop [OF assms]
    using close_points_nonempty [OF ne] z by simp
qed

lemma generate_ellipse_nonpos:
  "n \<le> 0 \<Longrightarrow> generate_ellipse A B n = Inl IndexError"
  by (simp add: generate_ellipse_def py_range_def close_points_def)

lemma s_curve_internal_step_ok:
  "n \<noteq> 1 \<Longrightarrow> s_curve_internal_step m n s i pts =
     Inr (pts @ [s_curve_internal_point m s (real i / real_of_int (n - 1))])"
  by (simp add: s_curve_internal_step_def py_truediv_def)

lemma s_curve_external_step_ok:
  "n \<noteq> 1 \<Longrightarrow> s_curve_external_step m n s i pts =
     Inr (pts @ [s_curve_external_point m s (real i / real_of_int (n - 1))])"
  by (simp add: s_curve_external_step_def py_truediv_def)

lemma generate_s_curve_ge2:
  assumes "2 \<le> n"
  shows "generate_s_curve_tooth_points m n b s =
    Inr (map (\<lambda>i. if b then s_curve_internal_point m s (real i / real_of_int (n - 1))
                 else s_curve_external_point m s (real i / real_of_int (n - 1))) [0..<nat n])"
proof (cases b)
  case True
  have "for_each (s_curve_internal_step m n s) (py_range n) [] =
      Inr ([] @ concat (map (\<lambda>i. [s_curve_internal_point m s (real i / real_of_int (n - 1))])
        (py_range n)))"
    using assms by (intro for_each_append) (simp add: s_curve_internal_step_ok)
  then show ?thesis
    using True by (simp add: generate_s_curve_tooth_points_def py_range_def)
next
  case False
  have "for_each (s_curve_external_step m n s) (py_range n) [] =
      Inr ([] @ concat (map (\<lambda>i. [s_curve_external_point m s (real i / real_of_int (n - 1))])
        (py_range n)))"
    using assms by (intro for_each_append) (simp add: s_curve_external_step_ok)
  then show ?thesis
    using False by (simp add: generate_s_curve_tooth_points_def py_range_def)
qed

lemma generate_s_curve_one:
  "generate_s_curve_tooth_points m 1 b s = Inl ZeroDivisionError"
  by (simp add: generate_s_curve_tooth_points_def py_range_def s_curve_internal_step_def
      s_curve_external_step_def py_truediv_def)

lemma generate_s_curve_nonpos:
  "n \<le> 0 \<Longrightarrow> generate_s_curve_tooth_points m n b s = Inr []"
  by (simp add: generate_s_curve_tooth_points_def py_range_def)

lemma flex_point_step_ok:
  "radius \<noteq> 0 \<Longrightarrow> Z \<noteq> 0 \<Longrightarrow>
   flex_point_step radius (2 * pi * real k / real_of_int Z) pt s = Inr (s @ [spec_projection False radius Z k pt])"
  by (cases pt) (simp add: flex_point_step_def py_truediv_def spec_projection_def Let_def)

lemma circ_point_step_ok:
  "radius \<noteq> 0 \<Longrightarrow> Z \<noteq> 0 \<Longrightarrow>
   circ_point_step radius (2 * pi * real k / real_of_int Z) pt s = Inr (s @ [spec_projection True radius Z k pt])"
  by (cases pt) (simp add: circ_point_step_def py_truediv_def spec_projection_def Let_def)

lemma flex_tooth_step_ok:
  assumes "radius \<noteq> 0" "Z \<noteq> 0"
  shows "flex_tooth_step radius Z prof k s = Inr (s @ map (spec_projection False radius Z k) prof)"
proof -
  have "for_each (flex_point_step radius (2 * pi * real k / real_of_int Z)) prof s =
     Inr (s @ concat (map (\<lambda>pt. [spec_projection False radius Z k pt]) prof))"
    using assms by (intro for_each_append) (simp add: flex_point_step_ok)
  then show ?thesis using assms
    by (simp add: flex_tooth_step_def py_truediv_def)
qed

lemma circ_tooth_step_ok:
  assumes "radius \<noteq> 0" "Z \<noteq> 0"
  shows "circ_tooth_step radius Z prof k s = Inr (s @ map (spec_projection True radius Z k) prof)"
proof -
  have "for_each (circ_point_step radius (2 * pi * real k / real_of_int Z)) prof s =
     Inr (s @ concat (map (\<lambda>pt. [spec_projection True radius Z k pt]) prof))"
    using assms by (intro for_each_append) (simp add: circ_point_step_ok)
  then show ?thesis using assms
    by (simp add: circ_tooth_step_def py_truediv_def)
qed

lemma flex_teeth_loop:
  assumes "radius \<noteq> 0"
  shows "for_each (flex_tooth_step radius Z prof) (py_range Z) [] =
     Inr (concat (map (\<lambda>k. map (spec_projection False radius Z k) prof) [0..<nat Z]))"
proof (cases "0 < Z")
  case True
  then have "for_each (flex_tooth_step radius Z prof) (py_range Z) [] =
     Inr ([] @ concat (map (\<lambda>k. map (spec_projection False radius Z k) prof) (py_range Z)))"
    using assms by (intro for_each_append) (simp add: flex_tooth_step_ok)
  then show ?thesis by (simp add: py_range_def)
next
  case False
  then show ?thesis by (simp add: py_range_def)
qed

lemma circ_teeth_loop:
  assumes "radius \<noteq> 0"
  shows "for_each (circ_tooth_step radius Z prof) (py_range Z) [] =
     Inr (concat (map (\<lambda>k. map (spec_projection True radius Z k) prof) [0..<nat Z]))"
proof (cases "0 < Z")
  case True
  then have "for_each (circ_tooth_step radius Z prof) (py_range Z) [] =
     Inr ([] @ concat (map (\<lambda>k. map (spec_projection True radius Z k) prof) (py_range Z)))"
    using assms by (intro for_each_append) (simp add: circ_tooth_step_ok)
  then show ?thesis by (simp add: py_range_def)
next
  case False
  then show ?thesis by (simp add: py_range_def)
qed

lemma generate_flex_spline_teeth_result:
  assumes prof: "generate_tooth_profile p n = Inr prof"
    and r: "D_PITCH_FLEX p \<noteq> 0 \<or> Z \<le> 0"
  shows "generate_flex_spline_teeth p (Some Z) n =
    Inr (concat (map (\<lambda>k. map (spec_projection False (D_PITCH_FLEX p / 2) Z k) prof) [0..<nat Z]))"
proof (cases "D_PITCH_FLEX p = 0")
  case True
  then have "Z \<le> 0" using r by simp
  then show ?thesis
    by (simp add: generate_flex_spline_teeth_def prof py_range_def)
next
  case False
  then have "D_PITCH_FLEX p / 2 \<noteq> 0" by simp
  then show ?thesis
    by (simp add: generate_flex_spline_teeth_def prof flex_teeth_loop)
qed

lemma generate_circular_spline_teeth_result:
  assumes prof: "generate_tooth_profile p n = Inr prof"
    and r: "D_PITCH_CIRC p \<noteq> 0 \<or> Z \<le> 0"
  shows "generate_circular_spline_teeth p (Some Z) n =
    Inr (concat (map (\<lambda>k. map (spec_projection True (D_PITCH_CIRC p / 2) Z k) prof) [0..<nat Z]))"
proof (cases "D_PITCH_CIRC p = 0")
  case True
  then have "Z \<le> 0" using r by simp
  then show ?thesis
    by (simp add: generate_circular_spline_teeth_def prof py_range_def)
next
  case False
  then have "D_PITCH_CIRC p / 2 \<noteq> 0" by simp
  then show ?thesis
    by (simp add: generate_circular_spline_teeth_def prof circ_teeth_loop)
qed

lemma flex_default_teeth:
  "generate_flex_spline_teeth p None n = generate_flex_spline_teeth p (Some (Z_FLEX p)) n"
  by (simp add: generate_flex_spline_teeth_def)

lemma circ_default_teeth:
  "generate_circular_spline_teeth p None n = generate_circular_spline_teeth p (Some (Z_CIRC p)) n"
  by (simp add: generate_circular_spline_teeth_def)

section \<open>The two tooth shapes as functions of the parameter\<close>

lemma tooth_profile_point_fst:
  "fst (tooth_profile_point p t) = (t - 1 / 2) * (pi * MODULE p)"
  by (simp add: tooth_profile_point_def Let_def)

lemma tooth_profile_point_snd:
  "snd (tooth_profile_point p t) =
     (ADDENDUM p - DEDENDUM p) / 2 - (DEDENDUM p + ADDENDUM p) / 2 * cos (2 * pi * t)"
proof -
  have a: "pi * (t / 0.5) = 2 * pi * t" by simp
  have b: "pi * ((t - 0.5) / 0.5) = 2 * pi * t - pi" by (simp add: algebra_simps)
  show ?thesis
    unfolding tooth_profile_point_def Let_def a b
    by (simp add: field_simps)
qed

lemma tooth_profile_point_mirror:
  "tooth_profile_point p (1 - t) =
     (- fst (tooth_profile_point p t), snd (tooth_profile_point p t))"
proof -
  have "2 * pi * (1 - t) = 2 * pi - 2 * pi * t" by (simp add: algebra_simps)
  then have "cos (2 * pi * (1 - t)) = cos (2 * pi * t)" by simp
  then show ?thesis
    by (simp add: prod_eq_iff tooth_profile_point_fst tooth_profile_point_snd algebra_simps)
qed

lemma tooth_profile_point_0: "tooth_profile_point p 0 = (- (pi * MODULE p) / 2, - DEDENDUM p)"
  by (simp add: prod_eq_iff tooth_profile_point_fst tooth_profile_point_snd field_simps)

lemma tooth_profile_point_1: "tooth_profile_point p 1 = ((pi * MODULE p) / 2, - DEDENDUM p)"
  by (simp add: prod_eq_iff tooth_profile_point_fst tooth_profile_point_snd field_simps)

lemma tooth_profile_point_half: "tooth_profile_point p (1 / 2) = (0, ADDENDUM p)"
  by (simp add: prod_eq_iff tooth_profile_point_fst tooth_profile_point_snd field_simps)

lemma s_curve_external_point_low:
  "t \<le> 1 / 2 \<Longrightarrow> s_curve_external_point m s t =
     (- s_tooth_width m / 3 * (1 - 2 * t),
      - s_dedendum m s + (s_addendum m s + s_dedendum m s) * sin (pi * (2 * t) / 2))"
  by (simp add: s_curve_external_point_def Let_def)

lemma s_curve_external_point_high:
  "1 / 2 < t \<Longrightarrow> s_curve_external_point m s t =
     (s_tooth_width m / 3 * (2 * (t - 1 / 2)),
      - s_dedendum m s + (s_addendum m s + s_dedendum m s) * sin (pi * (1 - 2 * (t - 1 / 2)) / 2))"
  by (simp add: s_curve_external_point_def Let_def)

lemma s_curve_external_point_mirror:
  "s_curve_external_point m s (1 - t) =
     (- fst (s_curve_external_point m s t), snd (s_curve_external_point m s t))"
proof -
  consider "t < 1 / 2" | "t = 1 / 2" | "1 / 2 < t" by linarith
  then show ?thesis
  proof cases
    case 1
    then have h: "1 / 2 < 1 - t" by simp
    have "pi * (1 - 2 * (1 - t - 1 / 2)) / 2 = pi * (2 * t) / 2" by (simp add: algebra_simps)
    then show ?thesis
      using 1 by (simp add: s_curve_external_point_high [OF h] s_curve_external_point_low algebra_simps)
  next
    case 2
    then have e: "1 - t = t" by simp
    have "fst (s_curve_external_point m s t) = 0"
      using 2 by (simp add: s_curve_external_point_low)
    then show ?thesis unfolding e by (simp add: prod_eq_iff)
  next
    case 3
    then have h: "1 - t \<le> 1 / 2" by simp
    have "pi * (2 * (1 - t)) / 2 = pi * (1 - 2 * (t - 1 / 2)) / 2" by (simp add: algebra_simps)
    then show ?thesis
      using 3 by (simp add: s_curve_external_point_high s_curve_external_point_low [OF h] algebra_simps)
  qed
qed

lemma s_curve_external_point_closed_form:
  "s_curve_external_point m s t =
     (s_tooth_width m / 3 * (2 * t - 1),
      - s_dedendum m s + (s_addendum m s + s_dedendum m s) * sin (pi * t))"
proof (cases "t \<le> 1 / 2")
  case True
  have "pi * (2 * t) / 2 = pi * t" by simp
  then show ?thesis
    using True by (simp add: s_curve_external_point_low algebra_simps)
next
  case False
  then have h: "1 / 2 < t" by simp
  have "pi * (1 - 2 * (t - 1 / 2)) / 2 = pi - pi * t" by (simp add: field_simps)
  then have "sin (pi * (1 - 2 * (t - 1 / 2)) / 2) = sin (pi - pi * t)" by (rule arg_cong)
  then have "sin (pi * (1 - 2 * (t - 1 / 2)) / 2) = sin (pi * t)" by (simp only: sin_pi_minus)
  then show ?thesis
    by (simp add: s_curve_external_point_high [OF h] algebra_simps)
qed

lemma s_tooth_height: "s_addendum m s + s_dedendum m s = 9 / 5 * m"
  by (simp add: s_addendum_def s_dedendum_def)

lemma sin_pi_rising:
  assumes "0 \<le> t" "t \<le> u" "u \<le> 1 / 2"
  shows "sin (pi * t) \<le> sin (pi * u)"
proof (rule sin_monotone_2pi_le)
  have "0 \<le> pi * t" using assms by simp
  then show "- (pi / 2) \<le> pi * t" using pi_ge_zero by linarith
  show "pi * t \<le> pi * u" using assms by simp
  have "pi * u \<le> pi * (1 / 2)" using assms by (intro mult_left_mono) simp_all
  then show "pi * u \<le> pi / 2" by simp
qed

lemma sin_pi_falling:
  assumes "1 / 2 \<le> t" "t \<le> u" "u \<le> 1"
  shows "sin (pi * u) \<le> sin (pi * t)"
proof -
  have "sin (pi * (1 - u)) \<le> sin (pi * (1 - t))"
    using assms by (intro sin_pi_rising) simp_all
  moreover have "sin (pi * (1 - u)) = sin (pi - pi * u)" "sin (pi * (1 - t)) = sin (pi - pi * t)"
    by (simp_all add: algebra_simps)
  ultimately show ?thesis by simp
qed

lemma sin_pi_unit_range:
  assumes "0 \<le> t" "t \<le> 1"
  shows "0 \<le> sin (pi * t)"
proof (rule sin_ge_zero)
  show "0 \<le> pi * t" using assms by simp
  have "pi * t \<le> pi * 1" using assms by (intro mult_left_mono) simp_all
  then show "pi * t \<le> pi" by simp
qed

lemma unit_fraction:
  assumes "0 < N" and "i \<le> nat N"
  shows "0 \<le> real i / real_of_int N" and "real i / real_of_int N \<le> 1"
proof -
  have "real i \<le> real_of_int N" using assms by linarith
  then show "real i / real_of_int N \<le> 1" using assms by simp
  show "0 \<le> real i / real_of_int N" using assms by simp
qed

lemma mirror_fraction:
  assumes "0 < N" and "i \<le> nat N"
  shows "real (nat N - i) / real_of_int N = 1 - real i / real_of_int N"
proof -
  have "real (nat N - i) = real_of_int N - real i"
    using assms by (simp add: of_nat_diff)
  then show ?thesis using assms by (simp add: diff_divide_distrib)
qed

lemma tooth_profile_samples_mirror:
  assumes n: "0 < n" and i: "i \<le> nat n"
  shows "tooth_profile_point p (real (nat n - i) / real_of_int n) =
     (- fst (tooth_profile_point p (real i / real_of_int n)),
      snd (tooth_profile_point p (real i / real_of_int n)))"
proof -
  have "real (nat n - i) / real_of_int n = 1 - real i / real_of_int n"
    using mirror_fraction [OF n i] .
  then show ?thesis by (simp only: tooth_profile_point_mirror)
qed

lemma s_curve_samples_mirror:
  assumes n: "2 \<le> n" and i: "i < nat n"
  shows "s_curve_external_point m s (real (nat n - 1 - i) / real_of_int (n - 1)) =
     (- fst (s_curve_external_point m s (real i / real_of_int (n - 1))),
      snd (s_curve_external_point m s (real i / real_of_int (n - 1))))"
proof -
  have N: "0 < n - 1" using n by simp
  have le: "i \<le> nat (n - 1)" using i n by linarith
  have "nat n - 1 - i = nat (n - 1) - i" using n by (simp add: nat_diff_distrib)
  then have "real (nat n - 1 - i) / real_of_int (n - 1) = 1 - real i / real_of_int (n - 1)"
    using mirror_fraction [OF N le] by simp
  then show ?thesis by (simp only: s_curve_external_point_mirror)
qed

lemma tooth_profile_symmetric:
  assumes n: "0 < n"
  shows "\<exists>pts. generate_tooth_profile p n = Inr pts \<and> length pts = nat n + 1 \<and>
         map (\<lambda>(x, y). (- x, y)) (rev pts) = pts \<and>
         (i \<le> nat n \<longrightarrow> pts ! (nat n - i) = (- fst (pts ! i), snd (pts ! i))) \<and>
         snd (pts ! 0) = - DEDENDUM p \<and> snd (pts ! nat n) = - DEDENDUM p"
proof (intro exI conjI impI)
  let ?f = "\<lambda>i. tooth_profile_point p (real i / real_of_int n)"
  let ?pts = "map ?f [0..<nat n + 1]"
  have N: "nat (n + 1) = nat n + 1" using n by (simp add: nat_add_distrib)
  have nth: "?pts ! j = ?f j" if "j < nat n + 1" for j
    using that by (subst nth_map) (simp_all del: upt_Suc)
  show "generate_tooth_profile p n = Inr ?pts"
    using generate_tooth_profile_pos [OF n, of p] unfolding N .
  show "length ?pts = nat n + 1" by simp
  show "map (\<lambda>(x, y). (- x, y)) (rev ?pts) = ?pts"
  proof (rule mirror_rev_map)
    fix j assume "j < nat n + 1"
    then have "j \<le> nat n" by simp
    then have "?f (nat n - j) = (- fst (?f j), snd (?f j))"
      by (rule tooth_profile_samples_mirror [OF n])
    then show "?f (nat n + 1 - 1 - j) = (- fst (?f j), snd (?f j))"
      by (simp only: add_diff_cancel_right')
  qed
  show "?pts ! (nat n - i) = (- fst (?pts ! i), snd (?pts ! i))" if i: "i \<le> nat n"
  proof -
    have a: "?pts ! (nat n - i) = ?f (nat n - i)" by (rule nth) simp
    have b: "?pts ! i = ?f i" using i by (intro nth) simp
    have "?f (nat n - i) = (- fst (?f i), snd (?f i))"
      using i by (rule tooth_profile_samples_mirror [OF n])
    then show ?thesis by (simp only: a b)
  qed
  have "?pts ! 0 = ?f 0" by (rule nth) simp
  then show "snd (?pts ! 0) = - DEDENDUM p"
    by (simp only: of_nat_0 div_0 tooth_profile_point_0 snd_conv)
  have "real (nat n) / real_of_int n = 1" using n by simp
  moreover have "?pts ! nat n = ?f (nat n)" by (rule nth) simp
  ultimately show "snd (?pts ! nat n) = - DEDENDUM p"
    by (simp only: tooth_profile_point_1 snd_conv)
qed

lemma s_curve_external_symmetric:
  assumes n: "2 \<le> n"
  shows "\<exists>pts. generate_s_curve_tooth_points m n False s = Inr pts \<and> length pts = nat n \<and>
         map (\<lambda>(x, y). (- x, y)) (rev pts) = pts \<and>
         (i < nat n \<longrightarrow> pts ! (nat n - 1 - i) = (- fst (pts ! i), snd (pts ! i))) \<and>
         snd (pts ! 0) = - s_dedendum m s \<and> snd (pts ! (nat n - 1)) = - s_dedendum m s"
proof (intro exI conjI impI)
  let ?f = "\<lambda>i. s_curve_external_point m s (real i / real_of_int (n - 1))"
  let ?pts = "map ?f [0..<nat n]"
  have pos: "0 < nat n" using n by simp
  have nth: "?pts ! j = ?f j" if "j < nat n" for j
    using that by (subst nth_map) simp_all
  show "generate_s_curve_tooth_points m n False s = Inr ?pts"
    using generate_s_curve_ge2 [OF n, of m False s] by simp
  show "length ?pts = nat n" by simp
  show "map (\<lambda>(x, y). (- x, y)) (rev ?pts) = ?pts"
    using s_curve_samples_mirror [OF n] by (rule mirror_rev_map)
  show "?pts ! (nat n - 1 - i) = (- fst (?pts ! i), snd (?pts ! i))" if i: "i < nat n"
  proof -
    have a: "?pts ! (nat n - 1 - i) = ?f (nat n - 1 - i)" using i by (intro nth) simp
    have b: "?pts ! i = ?f i" using i by (rule nth)
    have "?f (nat n - 1 - i) = (- fst (?f i), snd (?f i))"
      using i by (rule s_curve_samples_mirror [OF n])
    then show ?thesis by (simp only: a b)
  qed
  have "?pts ! 0 = ?f 0" using pos by (rule nth)
  then show "snd (?pts ! 0) = - s_dedendum m s"
    by (simp add: s_curve_external_point_closed_form)
  have "real (nat n - 1) = real_of_int (n - 1)" using n by (simp add: of_nat_diff)
  then have "real (nat n - 1) / real_of_int (n - 1) = 1" using n by simp
  moreover have "?pts ! (nat n - 1) = ?f (nat n - 1)" using pos by (intro nth) simp
  ultimately show "snd (?pts ! (nat n - 1)) = - s_dedendum m s"
    by (simp add: s_curve_external_point_closed_form)
qed

section \<open>Closed conics\<close>

lemma circle_step_is_ellipse_step: "circle_step r n = ellipse_step r r n"
  by (intro ext) (simp add: circle_step_def ellipse_step_def)

lemma generate_circle_pos:
  assumes "0 < n"
  shows "generate_circle d n =
    Inr (map (\<lambda>i. (d / 2 * cos (2 * pi * real i / real_of_int n), d / 2 * sin (2 * pi * real i / real_of_int n))) [0..<nat n]
         @ [(d / 2, 0)])"
proof -
  have "generate_circle d n = generate_ellipse d d n"
    by (simp add: generate_circle_def generate_ellipse_def circle_step_is_ellipse_step Let_def)
  then show ?thesis using assms by (simp add: generate_ellipse_pos)
qed

lemma generate_circle_nonpos:
  "n \<le> 0 \<Longrightarrow> generate_circle d n = Inl IndexError"
  by (simp add: generate_circle_def py_range_def close_points_def)

lemma closed_samples_nth:
  assumes "0 < N" and "f 0 = p0"
  shows "length (map f [0..<N] @ [p0]) = N + 1"
    and "(map f [0..<N] @ [p0]) ! N = (map f [0..<N] @ [p0]) ! 0"
    and "i < N \<Longrightarrow> (map f [0..<N] @ [p0]) ! i = f i"
  using assms by (simp_all add: nth_append)

lemma sample_angle_bounds:
  assumes "0 < n" and "i < nat n"
  shows "0 \<le> 2 * pi * real i / real_of_int n"
    and "2 * pi * real i / real_of_int n < 2 * pi"
    and "2 * pi * real i / real_of_int n < 2 * pi * real (Suc i) / real_of_int n"
proof -
  have n: "0 < real_of_int n" using assms by simp
  have i: "real i < real_of_int n" using assms by linarith
  show "0 \<le> 2 * pi * real i / real_of_int n" using n by simp
  have "2 * pi * real i < 2 * pi * real_of_int n" using i by simp
  then show "2 * pi * real i / real_of_int n < 2 * pi" using n by (simp add: field_simps)
  have "2 * pi * real i < 2 * pi * real (Suc i)" by simp
  then show "2 * pi * real i / real_of_int n < 2 * pi * real (Suc i) / real_of_int n"
    using n by (simp add: divide_strict_right_mono)
qed

lemma circle_point_distance:
  "sqrt ((r * cos x)\<^sup>2 + (r * sin x)\<^sup>2) = \<bar>r\<bar>"
proof -
  have "(r * cos x)\<^sup>2 + (r * sin x)\<^sup>2 = r\<^sup>2 * ((cos x)\<^sup>2 + (sin x)\<^sup>2)"
    by (simp only: power_mult_distrib distrib_left)
  then show ?thesis by simp
qed

section \<open>Teeth as rotated copies\<close>

lemma spec_projection_next_tooth:
  assumes "Z \<noteq> 0"
  shows "spec_projection b r Z (Suc k) pt =
    rotate_point (2 * pi / real_of_int Z) (spec_projection b r Z k pt)"
proof -
  obtain px py where pt: "pt = (px, py)" by (cases pt)
  have "2 * pi * real (Suc k) = 2 * pi * real k + 2 * pi" by (simp add: algebra_simps)
  then have "2 * pi * real (Suc k) / real_of_int Z + px / r =
      (2 * pi * real k / real_of_int Z + px / r) + 2 * pi / real_of_int Z"
    by (simp add: add_divide_distrib)
  then show ?thesis
    by (simp add: pt spec_projection_def rotate_point_def Let_def cos_add sin_add algebra_simps)
qed

lemma full_gear_nth:
  assumes "k < Z" and "j \<le> N"
  shows "concat (map (\<lambda>k. map (g k) (map f [0..<N + 1])) [0..<Z]) ! (k * (N + 1) + j) = g k (f j)"
proof -
  have "concat (map (\<lambda>k. map (g k) (map f [0..<N + 1])) [0..<Z]) ! (k * (N + 1) + j) =
      map (g k) (map f [0..<N + 1]) ! j"
    using assms by (intro nth_concat_blocks) simp_all
  also have "\<dots> = g k (f j)"
    using assms by (simp add: nth_append del: upt_Suc)
  finally show ?thesis .
qed

lemma full_gear_length:
  "length (concat (map (\<lambda>k. map (g k) (map f [0..<N + 1])) [0..<Z])) = Z * (N + 1)"
  by (rule length_concat_blocks) simp

lemma flex_teeth_pos:
  assumes n: "0 < n" and r: "D_PITCH_FLEX p \<noteq> 0"
  shows "generate_flex_spline_teeth p (Some Z) n =
    Inr (concat (map (\<lambda>k. map (spec_projection False (D_PITCH_FLEX p / 2) Z k)
          (map (\<lambda>i. tooth_profile_point p (real i / real_of_int n)) [0..<nat n + 1]))
       [0..<nat Z]))"
proof -
  have N: "nat (n + 1) = nat n + 1" using n by (simp add: nat_add_distrib)
  have "generate_tooth_profile p n =
      Inr (map (\<lambda>i. tooth_profile_point p (real i / real_of_int n)) [0..<nat n + 1])"
    using generate_tooth_profile_pos [OF n, of p] unfolding N .
  then show ?thesis using r by (intro generate_flex_spline_teeth_result) simp_all
qed

lemma circ_teeth_pos:
  assumes n: "0 < n" and r: "D_PITCH_CIRC p \<noteq> 0"
  shows "generate_circular_spline_teeth p (Some Z) n =
    Inr (concat (map (\<lambda>k. map (spec_projection True (D_PITCH_CIRC p / 2) Z k)
          (map (\<lambda>i. tooth_profile_point p (real i / real_of_int n)) [0..<nat n + 1]))
       [0..<nat Z]))"
proof -
  have N: "nat (n + 1) = nat n + 1" using n by (simp add: nat_add_distrib)
  have "generate_tooth_profile p n =
      Inr (map (\<lambda>i. tooth_profile_point p (real i / real_of_int n)) [0..<nat n + 1])"
    using generate_tooth_profile_pos [OF n, of p] unfolding N .
  then show ?thesis using r by (intro generate_circular_spline_teeth_result) simp_all
qed

lemma spec_projection_polar:
  "spec_projection False r Z k pt =
     ((r + snd pt) * cos (2 * pi * real k / real_of_int Z + fst pt / r),
      (r + snd pt) * sin (2 * pi * real k / real_of_int Z + fst pt / r))"
  "spec_projection True r Z k pt =
     ((r - snd pt) * cos (2 * pi * real k / real_of_int Z + fst pt / r),
      (r - snd pt) * sin (2 * pi * real k / real_of_int Z + fst pt / r))"
  by (simp_all add: spec_projection_def case_prod_beta Let_def)

lemma sample_half:
  assumes "0 < n" and "even n"
  shows "real (nat (n div 2)) / real_of_int n = 1 / 2"
proof -
  have "2 * (n div 2) = n" using assms by simp
  then have "2 * real_of_int (n div 2) = real_of_int n"
    by (metis of_int_mult of_int_numeral)
  moreover have "real (nat (n div 2)) = real_of_int (n div 2)" using assms by simp
  ultimately show ?thesis using assms by (simp add: field_simps)
qed

section \<open>Rounding to binary64\<close>

lemma b64_value_powr: "b64_value (m, e) = real_of_int m * 2 powr real_of_int e"
proof (cases "0 \<le> e")
  case True
  then have "real_of_int e = real (nat e)" by simp
  then have "(2::real) powr real_of_int e = 2 powr real (nat e)" by (rule arg_cong)
  also have "\<dots> = 2 ^ nat e" by (simp add: powr_realpow)
  finally show ?thesis using True by (simp add: b64_value_def)
next
  case False
  then have "real_of_int e = - real (nat (- e))" by simp
  then have "(2::real) powr real_of_int e = 2 powr (- real (nat (- e)))" by (rule arg_cong)
  also have "\<dots> = 1 / 2 ^ nat (- e)"
    by (simp add: powr_minus powr_realpow divide_inverse)
  finally show ?thesis using False by (simp add: b64_value_def)
qed

lemma round_half_even_error:
  assumes "0 \<le> m"
  shows "2 * \<bar>round_half_even m s * 2 ^ s - m\<bar> \<le> 2 ^ s"
proof (cases "s = 0")
  case True
  then show ?thesis by (simp add: round_half_even_def)
next
  case False
  define P :: int where "P = 2 ^ s"
  define q where "q = m div P"
  define r where "r = m mod P"
  define h :: int where "h = 2 ^ (s - 1)"
  have P: "0 < P" by (simp add: P_def)
  have hh: "2 * h = P" using False by (simp add: h_def P_def power_eq_if)
  have m: "m = q * P + r" by (simp add: q_def r_def)
  have r: "0 \<le> r" "r < P" using P by (simp_all add: r_def)
  have rd: "round_half_even m s = (if h < r \<or> (r = h \<and> odd q) then q + 1 else q)"
    using False by (simp add: round_half_even_def q_def r_def h_def P_def Let_def)
  show ?thesis
  proof (cases "h < r \<or> (r = h \<and> odd q)")
    case True
    then have "round_half_even m s = q + 1" using rd by simp
    moreover have "(q + 1) * P - m = P - r" using m by (simp add: algebra_simps)
    ultimately have "round_half_even m s * P - m = P - r" by simp
    moreover have "h \<le> r" using True by auto
    ultimately show ?thesis using r hh unfolding P_def [symmetric] by simp
  next
    case False
    then have "round_half_even m s = q" using rd by simp
    moreover have "q * P - m = - r" using m by simp
    ultimately have "round_half_even m s * P - m = - r" by simp
    moreover have "r \<le> h" using False by auto
    ultimately show ?thesis using r hh unfolding P_def [symmetric] by simp
  qed
qed


lemma b64_round_relative_error:
  "\<bar>b64_value (b64_round (m, e)) - b64_value (m, e)\<bar> \<le> \<bar>b64_value (m, e)\<bar> / 2 ^ 53"
proof -
  define M where "M = \<bar>m\<bar>"
  define s where "s = nat (bitlen M - 53)"
  define q where "q = round_half_even M s"
  have M: "0 \<le> M" by (simp add: M_def)
  have rnd: "b64_round (m, e) = (sgn m * q, e + int s)"
    by (simp add: b64_round_def M_def s_def q_def Let_def)
  have err: "2 * \<bar>q * 2 ^ s - M\<bar> \<le> 2 ^ s"
    unfolding q_def using M by (rule round_half_even_error)
  have small: "2 ^ 53 * \<bar>q * 2 ^ s - M\<bar> \<le> M"
  proof (cases "s = 0")
    case True
    then show ?thesis using M by (simp add: q_def round_half_even_def)
  next
    case False
    then have b: "53 < bitlen M" by (simp add: s_def)
    then have pos: "0 < M" using bitlen_eq_zero_iff [of M] M by (cases "M = 0") auto
    have "nat (bitlen M - 1) = 52 + s" using b by (simp add: s_def)
    then have "2 ^ (52 + s) \<le> M" using bitlen_bounds [OF pos] by simp
    then have "(2::int) ^ 52 * 2 ^ s \<le> M" by (simp add: power_add)
    moreover have "2 ^ 53 * \<bar>q * 2 ^ s - M\<bar> = 2 ^ 52 * (2 * \<bar>q * 2 ^ s - M\<bar>)" by simp
    moreover have "(2::int) ^ 52 * (2 * \<bar>q * 2 ^ s - M\<bar>) \<le> 2 ^ 52 * 2 ^ s"
      using err by (intro mult_left_mono) simp_all
    ultimately show ?thesis by linarith
  qed
  have "b64_value (sgn m * q, e + int s) - b64_value (m, e) =
      real_of_int (sgn m * (q * 2 ^ s - M)) * 2 powr real_of_int e"
  proof -
    have "(2::real) powr real_of_int (e + int s) = 2 powr real_of_int e * 2 ^ s"
      by (simp add: powr_add powr_realpow)
    moreover have "m = sgn m * M" by (simp add: M_def sgn_mult_abs)
    then have "real_of_int m = real_of_int (sgn m) * real_of_int M"
      by (metis of_int_mult)
    ultimately show ?thesis
      by (simp add: b64_value_powr algebra_simps)
  qed
  then have "\<bar>b64_value (b64_round (m, e)) - b64_value (m, e)\<bar> =
      \<bar>real_of_int (sgn m * (q * 2 ^ s - M)) * 2 powr real_of_int e\<bar>"
    by (simp only: rnd)
  also have "\<dots> = \<bar>real_of_int (sgn m * (q * 2 ^ s - M))\<bar> * \<bar>2 powr real_of_int e\<bar>"
    by (rule abs_mult)
  also have "\<dots> = real_of_int \<bar>sgn m * (q * 2 ^ s - M)\<bar> * 2 powr real_of_int e"
    by (simp only: of_int_abs abs_of_nonneg [OF powr_ge_zero])
  also have "\<dots> \<le> real_of_int \<bar>q * 2 ^ s - M\<bar> * 2 powr real_of_int e"
  proof -
    have "\<bar>sgn m * (q * 2 ^ s - M)\<bar> \<le> \<bar>q * 2 ^ s - M\<bar>"
      by (simp add: abs_mult abs_sgn_eq)
    then have "real_of_int \<bar>sgn m * (q * 2 ^ s - M)\<bar> \<le> real_of_int \<bar>q * 2 ^ s - M\<bar>"
      by (rule of_int_le_iff [THEN iffD2])
    then show ?thesis by (rule mult_right_mono) (rule powr_ge_zero)
  qed
  also have "\<dots> \<le> (real_of_int M / 2 ^ 53) * 2 powr real_of_int e"
  proof -
    have "real_of_int (2 ^ 53 * \<bar>q * 2 ^ s - M\<bar>) \<le> real_of_int M"
      using small by (rule of_int_le_iff [THEN iffD2])
    then have "real_of_int \<bar>q * 2 ^ s - M\<bar> \<le> real_of_int M / 2 ^ 53"
      by (simp add: field_simps)
    then show ?thesis by (rule mult_right_mono) (rule powr_ge_zero)
  qed
  also have "\<dots> = \<bar>b64_value (m, e)\<bar> / 2 ^ 53"
    by (simp add: b64_value_powr abs_mult M_def)
  finally show ?thesis .
qed

lemma b64_value_product:
  "b64_value (fst x * fst y, snd x + snd y) = b64_value x * b64_value y"
proof -
  obtain m1 e1 m2 e2 where x: "x = (m1, e1)" and y: "y = (m2, e2)"
    by (cases x, cases y) blast
  show ?thesis
    by (simp add: x y b64_value_powr powr_add)
qed

lemma b64_mul_relative_error:
  "\<bar>b64_value (b64_mul x y) - b64_value x * b64_value y\<bar>
     \<le> \<bar>b64_value x * b64_value y\<bar> / 2 ^ 53"
  using b64_round_relative_error [of "fst x * fst y" "snd x + snd y"]
  by (simp only: b64_mul_def b64_value_product)

lemma b64_of_int_exact:
  assumes "\<bar>n\<bar> < 2 ^ 53"
  shows "b64_of_int n = (n, 0)"
proof -
  have "bitlen \<bar>n\<bar> \<le> 53"
  proof (rule ccontr)
    assume "\<not> bitlen \<bar>n\<bar> \<le> 53"
    then have b: "54 \<le> bitlen \<bar>n\<bar>" by simp
    then have pos: "0 < \<bar>n\<bar>" using bitlen_eq_zero_iff [of "\<bar>n\<bar>"] by (cases "n = 0") auto
    have "53 \<le> nat (bitlen \<bar>n\<bar> - 1)" using b by simp
    then have "(2::int) ^ 53 \<le> 2 ^ nat (bitlen \<bar>n\<bar> - 1)"
      by (intro power_increasing) simp_all
    also have "\<dots> \<le> \<bar>n\<bar>" using bitlen_bounds [OF pos] by simp
    finally show False using assms by simp
  qed
  then have "nat (bitlen \<bar>n\<bar> - 53) = 0" by simp
  then show ?thesis
    by (simp add: b64_of_int_def b64_round_def round_half_even_def sgn_mult_abs)
qed

lemma pitch_diameter_rounded:
  assumes "\<bar>z\<bar> < 2 ^ 53"
  shows "\<bar>b64_value (b64_mul (b64_of_int z) m) - real_of_int z * b64_value m\<bar>
     \<le> \<bar>real_of_int z * b64_value m\<bar> / 2 ^ 53"
proof -
  have "b64_value (b64_of_int z) = real_of_int z"
    by (simp add: b64_of_int_exact [OF assms] b64_value_def)
  then show ?thesis
    using b64_mul_relative_error [of "b64_of_int z" m] by simp
qed

lemma design_teeth: "Z_FLEX design = 200" "Z_CIRC design = 202"
  by (simp_all add: Z_FLEX_def Z_CIRC_def design_def)

lemma module_b64: "MODULE_b64 = (7205759403792794, - 54)"
  unfolding MODULE_b64_def by code_simp

lemma design_b64:
  "D_PITCH_FLEX_b64 design MODULE_b64 = (5629499534213120, - 46)"
  "D_PITCH_CIRC_b64 design MODULE_b64 = (5685794529555252, - 46)"
  "ADDENDUM_b64 MODULE_b64 = (5764607523034236, - 54)"
  "D_OUTER_FLEX_b64 design MODULE_b64 = (5674535530486825, - 46)"
  unfolding MODULE_b64_def D_PITCH_FLEX_b64_def D_PITCH_CIRC_b64_def ADDENDUM_b64_def
    D_OUTER_FLEX_b64_def design_teeth
  by code_simp+

lemma literal_08: "b64_literal 8 10 = (7205759403792794, - 53)"
  by code_simp

lemma decimal_literals:
  "b64_literal 808 10 = (5685794529555251, - 46)"
  "b64_literal 32 100 = (5764607523034235, - 54)"
  "b64_literal 8064 100 = (5674535530486825, - 46)"
  "b64_literal 8080000000000001 100000000000000 = (5685794529555252, - 46)"
  "b64_literal 32000000000000006 100000000000000000 = (5764607523034236, - 54)"
  by code_simp+

lemma step_constants_b64:
  "ADDENDUM_MM_b64 m = ADDENDUM_b64 m"
  "PITCH_DIA_FLEX_MM_b64 p m = D_PITCH_FLEX_b64 p m"
  "PITCH_DIA_CIRC_MM_b64 p m = D_PITCH_CIRC_b64 p m"
  "FLEX_OUTER_DIA_b64 p m = D_OUTER_FLEX_b64 p m"
  by (simp_all add: ADDENDUM_MM_b64_def ADDENDUM_b64_def PITCH_DIA_FLEX_MM_b64_def
      D_PITCH_FLEX_b64_def PITCH_DIA_CIRC_MM_b64_def D_PITCH_CIRC_b64_def FLEX_OUTER_DIA_b64_def
      D_OUTER_FLEX_b64_def)

section \<open>Generation without validation\<close>

lemma generate_tooth_profile_length:
  "n \<noteq> 0 \<Longrightarrow> \<exists>prof. generate_tooth_profile p n = Inr prof \<and> length prof = nat (n + 1)"
proof (cases "0 < n")
  case True
  then show ?thesis by (simp add: generate_tooth_profile_pos)
next
  case False
  assume "n \<noteq> 0"
  with False have "n < 0" by simp
  then show ?thesis by (simp add: generate_tooth_profile_neg)
qed

lemma flex_teeth_without_validation:
  assumes n: "n \<noteq> 0" and m: "MODULE p \<noteq> 0"
  shows "\<exists>pts. generate_flex_spline_teeth p None n = Inr pts \<and>
     length pts = nat (Z_FLEX p) * nat (n + 1)"
proof -
  obtain prof where prof: "generate_tooth_profile p n = Inr prof"
    and L: "length prof = nat (n + 1)"
    using generate_tooth_profile_length [OF n] by blast
  have "D_PITCH_FLEX p \<noteq> 0 \<or> Z_FLEX p \<le> 0"
    using m by (auto simp add: D_PITCH_FLEX_def)
  then have "generate_flex_spline_teeth p (Some (Z_FLEX p)) n =
    Inr (concat (map (\<lambda>k. map (spec_projection False (D_PITCH_FLEX p / 2) (Z_FLEX p) k) prof)
       [0..<nat (Z_FLEX p)]))"
    using prof by (intro generate_flex_spline_teeth_result)
  moreover have "length (concat (map (\<lambda>k. map (spec_projection False (D_PITCH_FLEX p / 2) (Z_FLEX p) k) prof)
       [0..<nat (Z_FLEX p)])) = nat (Z_FLEX p) * nat (n + 1)"
    using L by (intro length_concat_blocks) simp
  ultimately show ?thesis by (simp add: flex_default_teeth)
qed

lemma circ_teeth_without_validation:
  assumes n: "n \<noteq> 0" and m: "MODULE p \<noteq> 0"
  shows "\<exists>pts. generate_circular_spline_teeth p None n = Inr pts \<and>
     length pts = nat (Z_CIRC p) * nat (n + 1)"
proof -
  obtain prof where prof: "generate_tooth_profile p n = Inr prof"
    and L: "length prof = nat (n + 1)"
    using generate_tooth_profile_length [OF n] by blast
  have "D_PITCH_CIRC p \<noteq> 0 \<or> Z_CIRC p \<le> 0"
    using m by (auto simp add: D_PITCH_CIRC_def)
  then have "generate_circular_spline_teeth p (Some (Z_CIRC p)) n =
    Inr (concat (map (\<lambda>k. map (spec_projection True (D_PITCH_CIRC p / 2) (Z_CIRC p) k) prof)
       [0..<nat (Z_CIRC p)]))"
    using prof by (intro generate_circular_spline_teeth_result)
  moreover have "length (concat (map (\<lambda>k. map (spec_projection True (D_PITCH_CIRC p / 2) (Z_CIRC p) k) prof)
       [0..<nat (Z_CIRC p)])) = nat (Z_CIRC p) * nat (n + 1)"
    using L by (intro length_concat_blocks) simp
  ultimately show ?thesis by (simp add: circ_default_teeth)
qed

lemma conic_lengths:
  assumes "0 < n"
  shows "\<exists>cs es. generate_circle d n = Inr cs \<and> generate_ellipse a b n = Inr es \<and>
     length cs = nat n + 1 \<and> length es = nat n + 1"
  using assms by (simp add: generate_circle_pos generate_ellipse_pos)

lemma s_curve_length:
  assumes "2 \<le> n"
  shows "\<exists>pts. generate_s_curve_tooth_points m n b s = Inr pts \<and> length pts = nat n"
  using assms by (simp add: generate_s_curve_ge2)

section \<open>The design of the source\<close>

lemma design_profile_1:
  "generate_tooth_profile design 1 = Inr [(- pi / 5, - 2 / 5), (pi / 5, - 2 / 5)]"
  by (simp add: generate_tooth_profile_pos upt_rec tooth_profile_point_0 tooth_profile_point_1
      design_def DEDENDUM_def)

lemma design_profile_2:
  "generate_tooth_profile design 2 =
     Inr [(- pi / 5, - 2 / 5), (0, 8 / 25), (pi / 5, - 2 / 5)]"
proof -
  have "real (Suc 0) / real_of_int 2 = 1 / 2" "real (Suc (Suc 0)) / real_of_int 2 = 1" by simp_all
  then show ?thesis
    by (simp add: generate_tooth_profile_pos upt_rec tooth_profile_point_0 tooth_profile_point_1
      tooth_profile_point_half design_def DEDENDUM_def ADDENDUM_def)
qed

lemma design_pitch: "D_PITCH_FLEX design = 80" "D_PITCH_CIRC design = 404 / 5"
  by (simp_all add: D_PITCH_FLEX_def D_PITCH_CIRC_def Z_FLEX_def Z_CIRC_def design_def)

section \<open>A circle is an ellipse with equal axes\<close>

text \<open>
  Claim C9. For every diameter and every point count, \<open>generate_circle d n\<close> and
  \<open>generate_ellipse d d n\<close> give the same result: the same point sequence, or for a
  point count below one the same \<open>IndexError\<close>.
\<close>

theorem circle_is_ellipse_with_equal_axes:
  "generate_circle d n = generate_ellipse d d n"
  by (simp add: generate_circle_def generate_ellipse_def Let_def circle_step_is_ellipse_step)

section \<open>Parameter derivation\<close>

text \<open>
  Claim C1, amended. For all inputs \<open>Z_CIRC = Z_FLEX + TOOTH_DIFFERENCE\<close> holds exactly,
  in integers. A pitch diameter is the binary64 product of its tooth count and the
  module: the exact product rounded to nearest, within a relative error of \<open>2^-53\<close>,
  and in general not the exact product. For the inputs of the source (module 0.4,
  gear ratio 100, tooth difference 2) the derived values are \<open>Z_FLEX = 200\<close>,
  \<open>Z_CIRC = 202\<close>, the flex pitch diameter 80.0 exactly, the circular pitch diameter
  80.80000000000001 (the binary64 number next above the one of the literal 80.8), the
  addendum \<open>0.8 * module = 0.32000000000000006\<close> (next above the one of the literal
  0.32) and the flex spline outer diameter \<open>pitch diameter + 2 * addendum\<close>, which is
  the binary64 number of the literal 80.64. The STEP script computes the same values
  under its own names.
\<close>

theorem parameter_derivation_binary64:
  "Z_FLEX p = GEAR_RATIO p * TOOTH_DIFFERENCE p \<and>
   Z_CIRC p = Z_FLEX p + TOOTH_DIFFERENCE p \<and>
   D_PITCH_FLEX_b64 p m = b64_mul (b64_of_int (Z_FLEX p)) m \<and>
   D_PITCH_CIRC_b64 p m = b64_mul (b64_of_int (Z_CIRC p)) m \<and>
   (\<bar>Z_FLEX p\<bar> < 2 ^ 53 \<longrightarrow>
      \<bar>b64_value (D_PITCH_FLEX_b64 p m) - real_of_int (Z_FLEX p) * b64_value m\<bar>
        \<le> \<bar>real_of_int (Z_FLEX p) * b64_value m\<bar> / 2 ^ 53) \<and>
   (\<bar>Z_CIRC p\<bar> < 2 ^ 53 \<longrightarrow>
      \<bar>b64_value (D_PITCH_CIRC_b64 p m) - real_of_int (Z_CIRC p) * b64_value m\<bar>
        \<le> \<bar>real_of_int (Z_CIRC p) * b64_value m\<bar> / 2 ^ 53) \<and>
   Z_FLEX design = 200 \<and> Z_CIRC design = 202 \<and>
   MODULE_b64 = (7205759403792794, - 54) \<and>
   \<bar>b64_value MODULE_b64 - 4 / 10\<bar> \<le> 1 / 2 ^ 55 \<and>
   b64_literal 8 10 = (7205759403792794, - 53) \<and>
   \<bar>b64_value (b64_literal 8 10) - 8 / 10\<bar> \<le> 1 / 2 ^ 54 \<and>
   b64_value (D_PITCH_FLEX_b64 design MODULE_b64) = 80 \<and>
   D_PITCH_CIRC_b64 design MODULE_b64 = (5685794529555252, - 46) \<and>
   b64_literal 808 10 = (5685794529555251, - 46) \<and>
   D_PITCH_CIRC_b64 design MODULE_b64 = b64_literal 8080000000000001 100000000000000 \<and>
   \<bar>b64_value (D_PITCH_CIRC_b64 design MODULE_b64) - 808 / 10\<bar> \<le> 1 / 2 ^ 46 \<and>
   ADDENDUM_b64 MODULE_b64 = (5764607523034236, - 54) \<and>
   b64_literal 32 100 = (5764607523034235, - 54) \<and>
   ADDENDUM_b64 MODULE_b64 = b64_literal 32000000000000006 100000000000000000 \<and>
   \<bar>b64_value (ADDENDUM_b64 MODULE_b64) - 32 / 100\<bar> \<le> 1 / 2 ^ 53 \<and>
   D_OUTER_FLEX_b64 design MODULE_b64 =
     b64_add (D_PITCH_FLEX_b64 design MODULE_b64)
       (b64_mul (b64_of_int 2) (ADDENDUM_b64 MODULE_b64)) \<and>
   D_OUTER_FLEX_b64 design MODULE_b64 = b64_literal 8064 100 \<and>
   \<bar>b64_value (D_OUTER_FLEX_b64 design MODULE_b64) - 8064 / 100\<bar> \<le> 1 / 2 ^ 47 \<and>
   ADDENDUM_MM_b64 m = ADDENDUM_b64 m \<and>
   PITCH_DIA_FLEX_MM_b64 p m = D_PITCH_FLEX_b64 p m \<and>
   PITCH_DIA_CIRC_MM_b64 p m = D_PITCH_CIRC_b64 p m \<and>
   FLEX_OUTER_DIA_b64 p m = D_OUTER_FLEX_b64 p m"
proof (intro conjI impI)
  show "Z_FLEX p = GEAR_RATIO p * TOOTH_DIFFERENCE p" by (simp add: Z_FLEX_def)
  show "Z_CIRC p = Z_FLEX p + TOOTH_DIFFERENCE p" by (simp add: Z_CIRC_def)
  show "D_PITCH_FLEX_b64 p m = b64_mul (b64_of_int (Z_FLEX p)) m"
    by (simp add: D_PITCH_FLEX_b64_def)
  show "D_PITCH_CIRC_b64 p m = b64_mul (b64_of_int (Z_CIRC p)) m"
    by (simp add: D_PITCH_CIRC_b64_def)
  show "\<bar>b64_value (D_PITCH_FLEX_b64 p m) - real_of_int (Z_FLEX p) * b64_value m\<bar>
        \<le> \<bar>real_of_int (Z_FLEX p) * b64_value m\<bar> / 2 ^ 53"
    if "\<bar>Z_FLEX p\<bar> < 2 ^ 53"
    unfolding D_PITCH_FLEX_b64_def using that by (rule pitch_diameter_rounded)
  show "\<bar>b64_value (D_PITCH_CIRC_b64 p m) - real_of_int (Z_CIRC p) * b64_value m\<bar>
        \<le> \<bar>real_of_int (Z_CIRC p) * b64_value m\<bar> / 2 ^ 53"
    if "\<bar>Z_CIRC p\<bar> < 2 ^ 53"
    unfolding D_PITCH_CIRC_b64_def using that by (rule pitch_diameter_rounded)
  show "Z_FLEX design = 200" "Z_CIRC design = 202" by (rule design_teeth)+
  show "MODULE_b64 = (7205759403792794, - 54)" by (rule module_b64)
  show "\<bar>b64_value MODULE_b64 - 4 / 10\<bar> \<le> 1 / 2 ^ 55"
    by (simp add: module_b64 b64_value_def)
  show "b64_literal 8 10 = (7205759403792794, - 53)" by (rule literal_08)
  show "\<bar>b64_value (b64_literal 8 10) - 8 / 10\<bar> \<le> 1 / 2 ^ 54"
    by (simp add: literal_08 b64_value_def)
  show "b64_value (D_PITCH_FLEX_b64 design MODULE_b64) = 80"
    by (simp add: design_b64 b64_value_def)
  show "D_PITCH_CIRC_b64 design MODULE_b64 = (5685794529555252, - 46)" by (rule design_b64)
  show "b64_literal 808 10 = (5685794529555251, - 46)" by (rule decimal_literals)
  show "D_PITCH_CIRC_b64 design MODULE_b64 = b64_literal 8080000000000001 100000000000000"
    by (simp only: design_b64 decimal_literals)
  show "\<bar>b64_value (D_PITCH_CIRC_b64 design MODULE_b64) - 808 / 10\<bar> \<le> 1 / 2 ^ 46"
    by (simp add: design_b64 b64_value_def)
  show "ADDENDUM_b64 MODULE_b64 = (5764607523034236, - 54)" by (rule design_b64)
  show "b64_literal 32 100 = (5764607523034235, - 54)" by (rule decimal_literals)
  show "ADDENDUM_b64 MODULE_b64 = b64_literal 32000000000000006 100000000000000000"
    by (simp only: design_b64 decimal_literals)
  show "\<bar>b64_value (ADDENDUM_b64 MODULE_b64) - 32 / 100\<bar> \<le> 1 / 2 ^ 53"
    by (simp add: design_b64 b64_value_def)
  show "D_OUTER_FLEX_b64 design MODULE_b64 =
     b64_add (D_PITCH_FLEX_b64 design MODULE_b64)
       (b64_mul (b64_of_int 2) (ADDENDUM_b64 MODULE_b64))"
    by (simp add: D_OUTER_FLEX_b64_def)
  show "D_OUTER_FLEX_b64 design MODULE_b64 = b64_literal 8064 100"
    by (simp only: design_b64 decimal_literals)
  show "\<bar>b64_value (D_OUTER_FLEX_b64 design MODULE_b64) - 8064 / 100\<bar> \<le> 1 / 2 ^ 47"
    by (simp add: design_b64 b64_value_def)
  show "ADDENDUM_MM_b64 m = ADDENDUM_b64 m" "PITCH_DIA_FLEX_MM_b64 p m = D_PITCH_FLEX_b64 p m"
    "PITCH_DIA_CIRC_MM_b64 p m = D_PITCH_CIRC_b64 p m"
    "FLEX_OUTER_DIA_b64 p m = D_OUTER_FLEX_b64 p m"
    by (rule step_constants_b64)+
qed

theorem parameter_derivation_binary64_witness:
  "\<bar>Z_FLEX design\<bar> < 2 ^ 53 \<and> \<bar>Z_CIRC design\<bar> < 2 ^ 53 \<and>
   \<bar>b64_value (D_PITCH_FLEX_b64 design MODULE_b64) - real_of_int (Z_FLEX design) * b64_value MODULE_b64\<bar>
     \<le> \<bar>real_of_int (Z_FLEX design) * b64_value MODULE_b64\<bar> / 2 ^ 53 \<and>
   \<bar>b64_value (D_PITCH_CIRC_b64 design MODULE_b64) - real_of_int (Z_CIRC design) * b64_value MODULE_b64\<bar>
     \<le> \<bar>real_of_int (Z_CIRC design) * b64_value MODULE_b64\<bar> / 2 ^ 53"
proof -
  have f: "\<bar>Z_FLEX design\<bar> < 2 ^ 53" and c: "\<bar>Z_CIRC design\<bar> < 2 ^ 53"
    by (simp_all add: design_teeth)
  show ?thesis
    using f c parameter_derivation_binary64 [of design MODULE_b64] by blast
qed

text \<open>
  The claim as stated gives the circular pitch diameter the value 80.8 and the addendum
  the value 0.32. The program holds neither: the two products round to the next
  binary64 number above.
\<close>

theorem parameter_derivation_counterexample:
  "D_PITCH_CIRC_b64 design MODULE_b64 = (5685794529555252, - 46) \<and>
   b64_literal 808 10 = (5685794529555251, - 46) \<and>
   b64_value (D_PITCH_CIRC_b64 design MODULE_b64) \<noteq> b64_value (b64_literal 808 10) \<and>
   b64_value (D_PITCH_CIRC_b64 design MODULE_b64) \<noteq> 808 / 10 \<and>
   ADDENDUM_b64 MODULE_b64 = (5764607523034236, - 54) \<and>
   b64_literal 32 100 = (5764607523034235, - 54) \<and>
   b64_value (ADDENDUM_b64 MODULE_b64) \<noteq> b64_value (b64_literal 32 100) \<and>
   b64_value (ADDENDUM_b64 MODULE_b64) \<noteq> 32 / 100"
  by (simp add: design_b64 decimal_literals b64_value_def)

section \<open>Radial array projection\<close>

text \<open>
  Claim C2. Let the tooth profile be \<open>prof\<close>. For every tooth index \<open>k\<close> below the tooth
  count \<open>Z\<close> and every profile point \<open>(px, py) = prof ! j\<close>, both projectors emit, at
  position \<open>k * length prof + j\<close>, the point \<open>(r_total * cos theta, r_total * sin theta)\<close>
  with \<open>theta = 2 pi k / Z + px / r\<close>, where \<open>r\<close> is the pitch radius of the gear and
  \<open>r_total = r + py\<close> for the flex spline, \<open>r_total = r - py\<close> for the circular spline.
  Both outputs are the tooth-by-tooth concatenation of the projection of the
  specification, which differs between the two only in that sign.
\<close>

theorem radial_projection_formula:
  assumes prof: "generate_tooth_profile p n = Inr prof"
    and rf: "D_PITCH_FLEX p \<noteq> 0" and rc: "D_PITCH_CIRC p \<noteq> 0"
    and k: "k < nat Z" and j: "j < length prof"
  shows "\<exists>ext int.
    generate_flex_spline_teeth p (Some Z) n = Inr ext \<and>
    generate_circular_spline_teeth p (Some Z) n = Inr int \<and>
    ext = concat (map (\<lambda>k. map (spec_projection False (D_PITCH_FLEX p / 2) Z k) prof) [0..<nat Z]) \<and>
    int = concat (map (\<lambda>k. map (spec_projection True (D_PITCH_CIRC p / 2) Z k) prof) [0..<nat Z]) \<and>
    length ext = nat Z * length prof \<and> length int = nat Z * length prof \<and>
    ext ! (k * length prof + j) =
      ((D_PITCH_FLEX p / 2 + snd (prof ! j)) *
         cos (2 * pi * real k / real_of_int Z + fst (prof ! j) / (D_PITCH_FLEX p / 2)),
       (D_PITCH_FLEX p / 2 + snd (prof ! j)) *
         sin (2 * pi * real k / real_of_int Z + fst (prof ! j) / (D_PITCH_FLEX p / 2))) \<and>
    int ! (k * length prof + j) =
      ((D_PITCH_CIRC p / 2 - snd (prof ! j)) *
         cos (2 * pi * real k / real_of_int Z + fst (prof ! j) / (D_PITCH_CIRC p / 2)),
       (D_PITCH_CIRC p / 2 - snd (prof ! j)) *
         sin (2 * pi * real k / real_of_int Z + fst (prof ! j) / (D_PITCH_CIRC p / 2)))"
proof -
  let ?L = "length prof"
  let ?ge = "\<lambda>k. map (spec_projection False (D_PITCH_FLEX p / 2) Z k) prof"
  let ?gi = "\<lambda>k. map (spec_projection True (D_PITCH_CIRC p / 2) Z k) prof"
  let ?ext = "concat (map ?ge [0..<nat Z])"
  let ?int = "concat (map ?gi [0..<nat Z])"
  have e: "generate_flex_spline_teeth p (Some Z) n = Inr ?ext"
    using prof rf by (intro generate_flex_spline_teeth_result) simp_all
  have i: "generate_circular_spline_teeth p (Some Z) n = Inr ?int"
    using prof rc by (intro generate_circular_spline_teeth_result) simp_all
  have le: "length ?ext = nat Z * ?L"
    by (rule length_concat_blocks) simp
  have li: "length ?int = nat Z * ?L"
    by (rule length_concat_blocks) simp
  have "?ext ! (k * ?L + j) = ?ge k ! j"
    using k j by (intro nth_concat_blocks) simp_all
  then have pe: "?ext ! (k * ?L + j) =
      ((D_PITCH_FLEX p / 2 + snd (prof ! j)) *
         cos (2 * pi * real k / real_of_int Z + fst (prof ! j) / (D_PITCH_FLEX p / 2)),
       (D_PITCH_FLEX p / 2 + snd (prof ! j)) *
         sin (2 * pi * real k / real_of_int Z + fst (prof ! j) / (D_PITCH_FLEX p / 2)))"
    using j by (simp add: spec_projection_def case_prod_beta Let_def)
  have "?int ! (k * ?L + j) = ?gi k ! j"
    using k j by (intro nth_concat_blocks) simp_all
  then have pi: "?int ! (k * ?L + j) =
      ((D_PITCH_CIRC p / 2 - snd (prof ! j)) *
         cos (2 * pi * real k / real_of_int Z + fst (prof ! j) / (D_PITCH_CIRC p / 2)),
       (D_PITCH_CIRC p / 2 - snd (prof ! j)) *
         sin (2 * pi * real k / real_of_int Z + fst (prof ! j) / (D_PITCH_CIRC p / 2)))"
    using j by (simp add: spec_projection_def case_prod_beta Let_def)
  show ?thesis
    using e i le li pe pi by blast
qed

theorem radial_projection_formula_witness:
  "generate_tooth_profile design 1 = Inr [(- pi / 5, - 2 / 5), (pi / 5, - 2 / 5)] \<and>
   D_PITCH_FLEX design \<noteq> 0 \<and> D_PITCH_CIRC design \<noteq> 0 \<and>
   (\<exists>ext int.
      generate_flex_spline_teeth design (Some 2) 1 = Inr ext \<and>
      generate_circular_spline_teeth design (Some 2) 1 = Inr int \<and>
      length ext = 4 \<and> length int = 4 \<and>
      ext ! 3 = ((40 - 2 / 5) * cos (pi + (pi / 5) / 40), (40 - 2 / 5) * sin (pi + (pi / 5) / 40)) \<and>
      int ! 3 = ((202 / 5 + 2 / 5) * cos (pi + (pi / 5) / (202 / 5)),
                 (202 / 5 + 2 / 5) * sin (pi + (pi / 5) / (202 / 5))))"
proof -
  have rf: "D_PITCH_FLEX design \<noteq> 0" and rc: "D_PITCH_CIRC design \<noteq> 0"
    by (simp_all add: design_pitch)
  have k: "(1::nat) < nat 2" and j: "(1::nat) < length [(- pi / 5, - 2 / 5), (pi / 5, - 2 / 5 :: real)]"
    by simp_all
  obtain ext int where
    e: "generate_flex_spline_teeth design (Some 2) 1 = Inr ext" and
    i: "generate_circular_spline_teeth design (Some 2) 1 = Inr int" and
    le: "length ext = nat 2 * length [(- pi / 5, - 2 / 5), (pi / 5, - 2 / 5 :: real)]" and
    li: "length int = nat 2 * length [(- pi / 5, - 2 / 5), (pi / 5, - 2 / 5 :: real)]" and
    pe: "ext ! (1 * length [(- pi / 5, - 2 / 5), (pi / 5, - 2 / 5 :: real)] + 1) =
      ((D_PITCH_FLEX design / 2 + snd ([(- pi / 5, - 2 / 5), (pi / 5, - 2 / 5 :: real)] ! 1)) *
         cos (2 * pi * real 1 / real_of_int 2 + fst ([(- pi / 5, - 2 / 5), (pi / 5, - 2 / 5 :: real)] ! 1) / (D_PITCH_FLEX design / 2)),
       (D_PITCH_FLEX design / 2 + snd ([(- pi / 5, - 2 / 5), (pi / 5, - 2 / 5 :: real)] ! 1)) *
         sin (2 * pi * real 1 / real_of_int 2 + fst ([(- pi / 5, - 2 / 5), (pi / 5, - 2 / 5 :: real)] ! 1) / (D_PITCH_FLEX design / 2)))" and
    pi: "int ! (1 * length [(- pi / 5, - 2 / 5), (pi / 5, - 2 / 5 :: real)] + 1) =
      ((D_PITCH_CIRC design / 2 - snd ([(- pi / 5, - 2 / 5), (pi / 5, - 2 / 5 :: real)] ! 1)) *
         cos (2 * pi * real 1 / real_of_int 2 + fst ([(- pi / 5, - 2 / 5), (pi / 5, - 2 / 5 :: real)] ! 1) / (D_PITCH_CIRC design / 2)),
       (D_PITCH_CIRC design / 2 - snd ([(- pi / 5, - 2 / 5), (pi / 5, - 2 / 5 :: real)] ! 1)) *
         sin (2 * pi * real 1 / real_of_int 2 + fst ([(- pi / 5, - 2 / 5), (pi / 5, - 2 / 5 :: real)] ! 1) / (D_PITCH_CIRC design / 2)))"
    using radial_projection_formula [OF design_profile_1 rf rc k j] by blast
  have "ext ! 3 = ((40 - 2 / 5) * cos (pi + (pi / 5) / 40), (40 - 2 / 5) * sin (pi + (pi / 5) / 40))"
    using pe by (simp add: design_pitch numeral_3_eq_3)
  moreover have "int ! 3 = ((202 / 5 + 2 / 5) * cos (pi + (pi / 5) / (202 / 5)),
                 (202 / 5 + 2 / 5) * sin (pi + (pi / 5) / (202 / 5)))"
    using pi by (simp add: design_pitch numeral_3_eq_3)
  ultimately show ?thesis
    using design_profile_1 rf rc e i le li by simp
qed

section \<open>Conic closure\<close>

text \<open>
  Claim C4. For a point count \<open>n\<close> of at least one, \<open>generate_circle d n\<close> and
  \<open>generate_ellipse a b n\<close> return \<open>n + 1\<close> points whose last point is the first one
  again (the closing point is a copy of element 0, so the two are equal whatever the
  arithmetic). Sample \<open>i < n\<close> lies at the angle \<open>2 pi i / n\<close>, which is in \<open>[0, 2 pi)\<close>
  and increases with \<open>i\<close> (counter-clockwise), and every sample of a circle of
  diameter \<open>d \<ge> 0\<close> lies at distance \<open>d / 2\<close> from the origin. A point count below one
  raises \<open>IndexError\<close> (lemmas \<open>generate_circle_nonpos\<close>, \<open>generate_ellipse_nonpos\<close>).
\<close>

theorem conic_closure:
  assumes n: "0 < n" and i: "i < nat n" and d: "0 \<le> d"
  shows "\<exists>cs es.
     generate_circle d n = Inr cs \<and> generate_ellipse a b n = Inr es \<and>
     length cs = nat n + 1 \<and> length es = nat n + 1 \<and>
     cs ! nat n = cs ! 0 \<and> es ! nat n = es ! 0 \<and>
     cs ! i = (d / 2 * cos (2 * pi * real i / real_of_int n),
               d / 2 * sin (2 * pi * real i / real_of_int n)) \<and>
     es ! i = (a / 2 * cos (2 * pi * real i / real_of_int n),
               b / 2 * sin (2 * pi * real i / real_of_int n)) \<and>
     0 \<le> 2 * pi * real i / real_of_int n \<and>
     2 * pi * real i / real_of_int n < 2 * pi \<and>
     2 * pi * real i / real_of_int n < 2 * pi * real (Suc i) / real_of_int n \<and>
     sqrt ((fst (cs ! i))\<^sup>2 + (snd (cs ! i))\<^sup>2) = d / 2"
proof -
  let ?c = "\<lambda>i. (d / 2 * cos (2 * pi * real i / real_of_int n),
               d / 2 * sin (2 * pi * real i / real_of_int n))"
  let ?e = "\<lambda>i. (a / 2 * cos (2 * pi * real i / real_of_int n),
               b / 2 * sin (2 * pi * real i / real_of_int n))"
  let ?cs = "map ?c [0..<nat n] @ [(d / 2, 0)]"
  let ?es = "map ?e [0..<nat n] @ [(a / 2, 0)]"
  have N: "0 < nat n" using n by simp
  have c0: "?c 0 = (d / 2, 0)" and e0: "?e 0 = (a / 2, 0)" by simp_all
  have gc: "generate_circle d n = Inr ?cs" using n by (rule generate_circle_pos)
  have ge: "generate_ellipse a b n = Inr ?es" using n by (rule generate_ellipse_pos)
  have lc: "length ?cs = nat n + 1" and le: "length ?es = nat n + 1" by simp_all
  have cc: "?cs ! nat n = ?cs ! 0" using N c0 by (rule closed_samples_nth(2))
  have ec: "?es ! nat n = ?es ! 0" using N e0 by (rule closed_samples_nth(2))
  have ci: "?cs ! i = ?c i" using N c0 i by (rule closed_samples_nth(3))
  have ei: "?es ! i = ?e i" using N e0 i by (rule closed_samples_nth(3))
  have "sqrt ((fst (?cs ! i))\<^sup>2 + (snd (?cs ! i))\<^sup>2) = \<bar>d / 2\<bar>"
    unfolding ci by (simp only: fst_conv snd_conv circle_point_distance)
  then have dist: "sqrt ((fst (?cs ! i))\<^sup>2 + (snd (?cs ! i))\<^sup>2) = d / 2"
    using d by simp
  show ?thesis
    using gc ge lc le cc ec ci ei sample_angle_bounds [OF n i] dist by blast
qed

theorem conic_closure_witness:
  "(0::int) < 4 \<and> (1::nat) < nat 4 \<and> (0::real) \<le> 2 \<and>
   (\<exists>cs es.
     generate_circle 2 4 = Inr cs \<and> generate_ellipse 6 4 4 = Inr es \<and>
     length cs = 5 \<and> length es = 5 \<and>
     cs ! 4 = cs ! 0 \<and> es ! 4 = es ! 0 \<and>
     cs ! 1 = (0, 1) \<and> es ! 1 = (0, 2) \<and>
     sqrt ((fst (cs ! 1))\<^sup>2 + (snd (cs ! 1))\<^sup>2) = 1)"
proof -
  have n: "(0::int) < 4" and i: "(1::nat) < nat 4" and d: "(0::real) \<le> 2" by simp_all
  have h: "2 * pi * real (1::nat) / real_of_int 4 = pi / 2" by simp
  show ?thesis
    using conic_closure [OF n i d, of 6 4] unfolding h by simp
qed

section \<open>Size and spacing of the full gear\<close>

text \<open>
  Claim C6, amended. The claim gives the projected sequence \<open>Z * pointsPerTooth\<close> points.
  The tooth profile for a requested \<open>num_points_per_tooth = n\<close> has \<open>n + 1\<close> points
  (the loop runs over \<^verbatim>\<open>range(num_points + 1)\<close>), so for \<open>n \<ge> 1\<close> the projected
  sequence of \<open>Z\<close> teeth has \<open>Z * (n + 1)\<close> points. For every \<open>n \<ge> 1\<close>, every tooth \<open>k\<close> and
  every profile index \<open>j \<le> n\<close>, the point at position \<open>k * (n + 1) + j\<close> lies at the angle
  \<open>2 pi k / Z + px / r\<close> and the radius \<open>r + py\<close> (flex spline) or \<open>r - py\<close> (circular
  spline), where \<open>(px, py)\<close> is sample \<open>j\<close> of the tooth profile; so the same sample of
  the next tooth is this point turned about the origin by exactly \<open>2 pi / Z\<close>. For
  even \<open>n\<close> the midpoint sample of tooth \<open>k\<close> (profile index \<open>n div 2\<close>, the tooth tip) lies
  exactly at the angle \<open>2 pi k / Z\<close>, at radius \<open>r + ADDENDUM\<close> on the flex spline and
  \<open>r - ADDENDUM\<close> on the circular spline.
\<close>

theorem full_gear_projection_size_and_spacing:
  assumes n: "0 < n" and rf: "D_PITCH_FLEX p \<noteq> 0" and rc: "D_PITCH_CIRC p \<noteq> 0"
    and k: "k < nat Z" and j: "j \<le> nat n"
  shows "\<exists>ext int.
     generate_flex_spline_teeth p (Some Z) n = Inr ext \<and>
     generate_circular_spline_teeth p (Some Z) n = Inr int \<and>
     length ext = nat Z * (nat n + 1) \<and>
     length int = nat Z * (nat n + 1) \<and>
     ext ! (k * (nat n + 1) + j) =
       ((D_PITCH_FLEX p / 2 + snd (tooth_profile_point p (real j / real_of_int n))) *
          cos (2 * pi * real k / real_of_int Z +
               fst (tooth_profile_point p (real j / real_of_int n)) / (D_PITCH_FLEX p / 2)),
        (D_PITCH_FLEX p / 2 + snd (tooth_profile_point p (real j / real_of_int n))) *
          sin (2 * pi * real k / real_of_int Z +
               fst (tooth_profile_point p (real j / real_of_int n)) / (D_PITCH_FLEX p / 2))) \<and>
     int ! (k * (nat n + 1) + j) =
       ((D_PITCH_CIRC p / 2 - snd (tooth_profile_point p (real j / real_of_int n))) *
          cos (2 * pi * real k / real_of_int Z +
               fst (tooth_profile_point p (real j / real_of_int n)) / (D_PITCH_CIRC p / 2)),
        (D_PITCH_CIRC p / 2 - snd (tooth_profile_point p (real j / real_of_int n))) *
          sin (2 * pi * real k / real_of_int Z +
               fst (tooth_profile_point p (real j / real_of_int n)) / (D_PITCH_CIRC p / 2))) \<and>
     (Suc k < nat Z \<longrightarrow>
        ext ! (Suc k * (nat n + 1) + j) =
          rotate_point (2 * pi / real_of_int Z) (ext ! (k * (nat n + 1) + j)) \<and>
        int ! (Suc k * (nat n + 1) + j) =
          rotate_point (2 * pi / real_of_int Z) (int ! (k * (nat n + 1) + j))) \<and>
     (even n \<longrightarrow>
        ext ! (k * (nat n + 1) + nat (n div 2)) =
          ((D_PITCH_FLEX p / 2 + ADDENDUM p) * cos (2 * pi * real k / real_of_int Z),
           (D_PITCH_FLEX p / 2 + ADDENDUM p) * sin (2 * pi * real k / real_of_int Z)) \<and>
        int ! (k * (nat n + 1) + nat (n div 2)) =
          ((D_PITCH_CIRC p / 2 - ADDENDUM p) * cos (2 * pi * real k / real_of_int Z),
           (D_PITCH_CIRC p / 2 - ADDENDUM p) * sin (2 * pi * real k / real_of_int Z)))"
proof (intro exI conjI impI)
  let ?f = "\<lambda>i. tooth_profile_point p (real i / real_of_int n)"
  let ?ge = "spec_projection False (D_PITCH_FLEX p / 2) Z"
  let ?gi = "spec_projection True (D_PITCH_CIRC p / 2) Z"
  let ?ext = "concat (map (\<lambda>k. map (?ge k) (map ?f [0..<nat n + 1])) [0..<nat Z])"
  let ?int = "concat (map (\<lambda>k. map (?gi k) (map ?f [0..<nat n + 1])) [0..<nat Z])"
  have Z: "Z \<noteq> 0" using k by auto
  have m: "nat (n div 2) \<le> nat n" using n by linarith
  have pe: "?ext ! (k' * (nat n + 1) + j') = ?ge k' (?f j')" if "k' < nat Z" "j' \<le> nat n" for k' j'
    using that by (rule full_gear_nth)
  have pi: "?int ! (k' * (nat n + 1) + j') = ?gi k' (?f j')" if "k' < nat Z" "j' \<le> nat n" for k' j'
    using that by (rule full_gear_nth)
  show "generate_flex_spline_teeth p (Some Z) n = Inr ?ext"
    using n rf by (rule flex_teeth_pos)
  show "generate_circular_spline_teeth p (Some Z) n = Inr ?int"
    using n rc by (rule circ_teeth_pos)
  show "length ?ext = nat Z * (nat n + 1)" by (rule full_gear_length)
  show "length ?int = nat Z * (nat n + 1)" by (rule full_gear_length)
  show "?ext ! (k * (nat n + 1) + j) =
       ((D_PITCH_FLEX p / 2 + snd (?f j)) *
          cos (2 * pi * real k / real_of_int Z + fst (?f j) / (D_PITCH_FLEX p / 2)),
        (D_PITCH_FLEX p / 2 + snd (?f j)) *
          sin (2 * pi * real k / real_of_int Z + fst (?f j) / (D_PITCH_FLEX p / 2)))"
    by (simp only: pe [OF k j] spec_projection_polar)
  show "?int ! (k * (nat n + 1) + j) =
       ((D_PITCH_CIRC p / 2 - snd (?f j)) *
          cos (2 * pi * real k / real_of_int Z + fst (?f j) / (D_PITCH_CIRC p / 2)),
        (D_PITCH_CIRC p / 2 - snd (?f j)) *
          sin (2 * pi * real k / real_of_int Z + fst (?f j) / (D_PITCH_CIRC p / 2)))"
    by (simp only: pi [OF k j] spec_projection_polar)
  show "?ext ! (Suc k * (nat n + 1) + j) =
          rotate_point (2 * pi / real_of_int Z) (?ext ! (k * (nat n + 1) + j))"
    if s: "Suc k < nat Z"
    by (simp only: pe [OF s j] pe [OF k j] spec_projection_next_tooth [OF Z])
  show "?int ! (Suc k * (nat n + 1) + j) =
          rotate_point (2 * pi / real_of_int Z) (?int ! (k * (nat n + 1) + j))"
    if s: "Suc k < nat Z"
    by (simp only: pi [OF s j] pi [OF k j] spec_projection_next_tooth [OF Z])
  show "?ext ! (k * (nat n + 1) + nat (n div 2)) =
          ((D_PITCH_FLEX p / 2 + ADDENDUM p) * cos (2 * pi * real k / real_of_int Z),
           (D_PITCH_FLEX p / 2 + ADDENDUM p) * sin (2 * pi * real k / real_of_int Z))"
    if ev: "even n"
  proof -
    have a: "?f (nat (n div 2)) = (0, ADDENDUM p)"
      by (simp only: sample_half [OF n ev] tooth_profile_point_half)
    have b: "?ge k (0, ADDENDUM p) =
          ((D_PITCH_FLEX p / 2 + ADDENDUM p) * cos (2 * pi * real k / real_of_int Z),
           (D_PITCH_FLEX p / 2 + ADDENDUM p) * sin (2 * pi * real k / real_of_int Z))"
      by (simp add: spec_projection_polar)
    show ?thesis by (simp only: pe [OF k m] a b)
  qed
  show "?int ! (k * (nat n + 1) + nat (n div 2)) =
          ((D_PITCH_CIRC p / 2 - ADDENDUM p) * cos (2 * pi * real k / real_of_int Z),
           (D_PITCH_CIRC p / 2 - ADDENDUM p) * sin (2 * pi * real k / real_of_int Z))"
    if ev: "even n"
  proof -
    have a: "?f (nat (n div 2)) = (0, ADDENDUM p)"
      by (simp only: sample_half [OF n ev] tooth_profile_point_half)
    have b: "?gi k (0, ADDENDUM p) =
          ((D_PITCH_CIRC p / 2 - ADDENDUM p) * cos (2 * pi * real k / real_of_int Z),
           (D_PITCH_CIRC p / 2 - ADDENDUM p) * sin (2 * pi * real k / real_of_int Z))"
      by (simp add: spec_projection_polar)
    show ?thesis by (simp only: pi [OF k m] a b)
  qed
qed

theorem full_gear_projection_size_and_spacing_witness:
  "(0::int) < 2 \<and> D_PITCH_FLEX design \<noteq> 0 \<and> D_PITCH_CIRC design \<noteq> 0 \<and>
   (0::nat) < nat 2 \<and> (1::nat) \<le> nat 2 \<and> Suc 0 < nat 2 \<and> even (2::int) \<and>
   (\<exists>ext int.
     generate_flex_spline_teeth design (Some 2) 2 = Inr ext \<and>
     generate_circular_spline_teeth design (Some 2) 2 = Inr int \<and>
     length ext = 6 \<and> length int = 6 \<and>
     ext ! 1 = (1008 / 25, 0) \<and> int ! 1 = (1002 / 25, 0) \<and>
     ext ! 4 = (- (1008 / 25), 0) \<and> int ! 4 = (- (1002 / 25), 0))"
proof -
  have n: "(0::int) < 2" and k: "(0::nat) < nat 2" and j: "(1::nat) \<le> nat 2" by simp_all
  have rf: "D_PITCH_FLEX design \<noteq> 0" and rc: "D_PITCH_CIRC design \<noteq> 0"
    by (simp_all add: design_pitch)
  have a: "ADDENDUM design = 8 / 25" by (simp add: ADDENDUM_def design_def)
  have ix: "0 * (nat 2 + 1) + 1 = (1::nat)" "Suc 0 * (nat 2 + 1) + 1 = 4"
    "0 * (nat 2 + 1) + nat (2 div 2) = 1" by simp_all
  have t: "tooth_profile_point design (real (1::nat) / real_of_int 2) = (0, 8 / 25)"
    using tooth_profile_point_half [of design] by (simp add: a)
  have an: "2 * pi / real_of_int 2 = pi" by simp
  show ?thesis
    using full_gear_projection_size_and_spacing [OF n rf rc k j]
    unfolding ix t an a design_pitch
    by (simp add: rf rc rotate_point_def cong: conj_cong)
qed

text \<open>
  The claim as stated fails: one tooth with two requested points per tooth gives three
  points, not two, and the call with the defaults of the source (200 teeth, 20 points
  per tooth) gives 4200 points, not 4000.
\<close>

theorem projection_size_counterexample:
  "generate_flex_spline_teeth design (Some 1) 2 =
     Inr [(198 / 5 * cos (pi / 200), - (198 / 5 * sin (pi / 200))),
          (1008 / 25, 0),
          (198 / 5 * cos (pi / 200), 198 / 5 * sin (pi / 200))] \<and>
   length [(198 / 5 * cos (pi / 200), - (198 / 5 * sin (pi / 200))),
          (1008 / 25, 0),
          (198 / 5 * cos (pi / 200), 198 / 5 * sin (pi / 200))] \<noteq> nat 1 * nat 2 \<and>
   \<not> isl (generate_flex_spline_teeth design None 20) \<and>
   length (projr (generate_flex_spline_teeth design None 20)) = 4200 \<and>
   (4200::nat) \<noteq> nat (Z_FLEX design) * nat 20"
proof -
  have "D_PITCH_FLEX design \<noteq> 0 \<or> (1::int) \<le> 0" by (simp add: design_pitch)
  then have a: "generate_flex_spline_teeth design (Some 1) 2 =
     Inr [(198 / 5 * cos (pi / 200), - (198 / 5 * sin (pi / 200))),
          (1008 / 25, 0),
          (198 / 5 * cos (pi / 200), 198 / 5 * sin (pi / 200))]"
    by (simp add: generate_flex_spline_teeth_result [OF design_profile_2] spec_projection_def
        Let_def design_pitch)
  have n: "(20::int) \<noteq> 0" by simp
  have m: "MODULE design \<noteq> 0" by (simp add: design_def)
  have z: "Z_FLEX design = 200" by (simp add: Z_FLEX_def design_def)
  have b: "\<not> isl (generate_flex_spline_teeth design None 20) \<and>
     length (projr (generate_flex_spline_teeth design None 20)) = 4200"
    using flex_teeth_without_validation [OF n m] unfolding z by auto
  show ?thesis using a b z by simp
qed

section \<open>Shape of the external tooth of the STEP script\<close>

text \<open>
  Claim C3, amended. With \<open>w = pi * module / 2\<close>, the external branch of
  \<open>generate_s_curve_tooth_points\<close> maps \<open>t\<close> to a point whose \<open>x\<close> advances linearly from
  \<open>- w / 3\<close> at \<open>t = 0\<close> through \<open>0\<close> at \<open>t = 1/2\<close> to \<open>w / 3\<close> at \<open>t = 1\<close>. On the first
  half \<open>y = - dedendum + (addendum + dedendum) * sin (pi * progress / 2)\<close> with
  \<open>progress = 2 t\<close>; on the second half the easing runs backwards,
  \<open>y = - dedendum + (addendum + dedendum) * sin (pi * (1 - progress) / 2)\<close> with
  \<open>progress = 2 (t - 1/2)\<close>. Together this is the one hump
  \<open>(w / 3 * (2 t - 1), - dedendum + (addendum + dedendum) * sin (pi t))\<close>: for a
  non-negative module \<open>y\<close> stays between \<open>- dedendum\<close> and \<open>addendum\<close>, rises on the first
  half, falls on the second, and the tip \<open>y = addendum\<close> is at \<open>x = 0\<close>, \<open>t = 1/2\<close>.
\<close>

theorem external_tooth_profile_shape:
  "s_tooth_width m = pi * m / 2 \<and>
   s_curve_external_point m s 0 = (- s_tooth_width m / 3, - s_dedendum m s) \<and>
   s_curve_external_point m s (1 / 2) = (0, s_addendum m s) \<and>
   s_curve_external_point m s 1 = (s_tooth_width m / 3, - s_dedendum m s) \<and>
   (t \<le> 1 / 2 \<longrightarrow>
      s_curve_external_point m s t =
        (- s_tooth_width m / 3 * (1 - 2 * t),
         - s_dedendum m s + (s_addendum m s + s_dedendum m s) * sin (pi * (2 * t) / 2))) \<and>
   (1 / 2 < t \<longrightarrow>
      s_curve_external_point m s t =
        (s_tooth_width m / 3 * (2 * (t - 1 / 2)),
         - s_dedendum m s +
           (s_addendum m s + s_dedendum m s) * sin (pi * (1 - 2 * (t - 1 / 2)) / 2))) \<and>
   s_curve_external_point m s t =
     (s_tooth_width m / 3 * (2 * t - 1),
      - s_dedendum m s + (s_addendum m s + s_dedendum m s) * sin (pi * t)) \<and>
   (0 \<le> m \<and> 0 \<le> t \<and> t \<le> 1 \<longrightarrow>
      - s_dedendum m s \<le> snd (s_curve_external_point m s t) \<and>
      snd (s_curve_external_point m s t) \<le> s_addendum m s) \<and>
   (0 \<le> m \<and> 0 \<le> t \<and> t \<le> u \<and> u \<le> 1 / 2 \<longrightarrow>
      snd (s_curve_external_point m s t) \<le> snd (s_curve_external_point m s u)) \<and>
   (0 \<le> m \<and> 1 / 2 \<le> t \<and> t \<le> u \<and> u \<le> 1 \<longrightarrow>
      snd (s_curve_external_point m s u) \<le> snd (s_curve_external_point m s t))"
proof -
  let ?H = "s_addendum m s + s_dedendum m s"
  have w: "s_tooth_width m = pi * m / 2"
    by (simp add: s_tooth_width_def s_pitch_def)
  have p0: "s_curve_external_point m s 0 = (- s_tooth_width m / 3, - s_dedendum m s)"
    by (simp add: s_curve_external_point_closed_form)
  have ph: "s_curve_external_point m s (1 / 2) = (0, s_addendum m s)"
    by (simp add: s_curve_external_point_closed_form)
  have p1: "s_curve_external_point m s 1 = (s_tooth_width m / 3, - s_dedendum m s)"
    by (simp add: s_curve_external_point_closed_form)
  have H: "0 \<le> ?H" if "0 \<le> m" using that by (simp add: s_tooth_height)
  have bounds: "- s_dedendum m s \<le> snd (s_curve_external_point m s t) \<and>
      snd (s_curve_external_point m s t) \<le> s_addendum m s"
    if "0 \<le> m" "0 \<le> t" "t \<le> 1"
  proof -
    have "0 \<le> ?H * sin (pi * t)"
      using H that sin_pi_unit_range by (intro mult_nonneg_nonneg) simp_all
    moreover have "?H * sin (pi * t) \<le> ?H * 1"
      using H that by (intro mult_left_mono) simp_all
    ultimately show ?thesis
      by (simp add: s_curve_external_point_closed_form)
  qed
  have rise: "snd (s_curve_external_point m s t) \<le> snd (s_curve_external_point m s u)"
    if "0 \<le> m" "0 \<le> t" "t \<le> u" "u \<le> 1 / 2"
  proof -
    have "?H * sin (pi * t) \<le> ?H * sin (pi * u)"
      using H that sin_pi_rising by (intro mult_left_mono) simp_all
    then show ?thesis by (simp add: s_curve_external_point_closed_form)
  qed
  have fall: "snd (s_curve_external_point m s u) \<le> snd (s_curve_external_point m s t)"
    if "0 \<le> m" "1 / 2 \<le> t" "t \<le> u" "u \<le> 1"
  proof -
    have "?H * sin (pi * u) \<le> ?H * sin (pi * t)"
      using H that sin_pi_falling by (intro mult_left_mono) simp_all
    then show ?thesis by (simp add: s_curve_external_point_closed_form)
  qed
  show ?thesis
    using w p0 ph p1 s_curve_external_point_low [of t m s] s_curve_external_point_high [of t m s]
      s_curve_external_point_closed_form [of m s t] bounds rise fall
    by blast
qed

theorem external_tooth_profile_shape_witness:
  "s_curve_external_point (2 / 5) 0 (1 / 4) =
     (- s_tooth_width (2 / 5) / 3 * (1 - 2 * (1 / 4)),
      - s_dedendum (2 / 5) 0 + (s_addendum (2 / 5) 0 + s_dedendum (2 / 5) 0) * sin (pi * (2 * (1 / 4)) / 2)) \<and>
   - s_dedendum (2 / 5) 0 \<le> snd (s_curve_external_point (2 / 5) 0 (1 / 4)) \<and>
   snd (s_curve_external_point (2 / 5) 0 (1 / 4)) \<le> s_addendum (2 / 5) 0 \<and>
   snd (s_curve_external_point (2 / 5) 0 (1 / 4)) \<le> snd (s_curve_external_point (2 / 5) 0 (1 / 2)) \<and>
   s_curve_external_point (2 / 5) 0 (3 / 4) =
     (s_tooth_width (2 / 5) / 3 * (2 * (3 / 4 - 1 / 2)),
      - s_dedendum (2 / 5) 0 + (s_addendum (2 / 5) 0 + s_dedendum (2 / 5) 0) * sin (pi * (1 - 2 * (3 / 4 - 1 / 2)) / 2)) \<and>
   snd (s_curve_external_point (2 / 5) 0 1) \<le> snd (s_curve_external_point (2 / 5) 0 (3 / 4))"
proof -
  have f: "(0::real) \<le> 2 / 5" "(0::real) \<le> 1 / 4" "(1 / 4::real) \<le> 1"
    "(1 / 4::real) \<le> 1 / 2" "(1 / 2::real) \<le> 1 / 2"
    "(1 / 2::real) < 3 / 4" "(1 / 2::real) \<le> 3 / 4" "(3 / 4::real) \<le> 1" "(1::real) \<le> 1"
    by simp_all
  show ?thesis
    using f external_tooth_profile_shape [of "2 / 5" 0 "1 / 4" "1 / 2"]
      external_tooth_profile_shape [of "2 / 5" 0 "3 / 4" 1]
    by blast
qed

text \<open>
  The claim as stated gives the second half the formula of the first. At \<open>t = 1\<close>
  (\<open>progress = 1\<close>) that formula yields \<open>addendum = 8/25\<close>, the code yields
  \<open>- dedendum = - 2/5\<close>: the three-point profile is root, tip, root.
\<close>

theorem external_tooth_profile_counterexample:
  "generate_s_curve_tooth_points (2 / 5) 3 False 0 =
     Inr [(- pi / 15, - 2 / 5), (0, 8 / 25), (pi / 15, - 2 / 5)] \<and>
   snd (s_curve_external_point (2 / 5) 0 1) = - 2 / 5 \<and>
   - s_dedendum (2 / 5) 0 +
     (s_addendum (2 / 5) 0 + s_dedendum (2 / 5) 0) * sin (pi * (2 * (1 - 1 / 2)) / 2) = 8 / 25"
  by (simp add: generate_s_curve_ge2 upt_rec s_curve_external_point_closed_form
      s_tooth_width_def s_pitch_def s_addendum_def s_dedendum_def)

section \<open>Sample counts of the tooth profiles\<close>

text \<open>
  Claim C5, amended. The two sample counts belong to the two scripts, not to the two
  variants. \<open>generate_tooth_profile\<close> of the DXF script, which serves the external and
  the internal projection alike, returns \<open>n + 1\<close> samples \<open>t = i / n\<close> of \<open>[0, 1]\<close> for a
  requested \<open>n \<ge> 1\<close>. \<open>generate_s_curve_tooth_points\<close> of the STEP script returns \<open>n\<close>
  samples \<open>t = i / (n - 1)\<close> of \<open>[0, 1]\<close> for \<open>n \<ge> 2\<close>, for its external and its
  internal variant alike.
\<close>

theorem tooth_profile_sample_counts:
  "(0 < n \<longrightarrow>
      (\<exists>pts. generate_tooth_profile p n = Inr pts \<and> length pts = nat n + 1 \<and>
         (i \<le> nat n \<longrightarrow>
            pts ! i = tooth_profile_point p (real i / real_of_int n) \<and>
            0 \<le> real i / real_of_int n \<and> real i / real_of_int n \<le> 1))) \<and>
   (2 \<le> n \<longrightarrow>
      (\<exists>ext int.
         generate_s_curve_tooth_points m n False s = Inr ext \<and>
         generate_s_curve_tooth_points m n True s = Inr int \<and>
         length ext = nat n \<and> length int = nat n \<and>
         (i < nat n \<longrightarrow>
            ext ! i = s_curve_external_point m s (real i / real_of_int (n - 1)) \<and>
            int ! i = s_curve_internal_point m s (real i / real_of_int (n - 1)) \<and>
            0 \<le> real i / real_of_int (n - 1) \<and> real i / real_of_int (n - 1) \<le> 1)))"
proof (intro conjI impI)
  assume n: "0 < n"
  let ?pts = "map (\<lambda>i. tooth_profile_point p (real i / real_of_int n)) [0..<nat (n + 1)]"
  have g: "generate_tooth_profile p n = Inr ?pts" using n by (rule generate_tooth_profile_pos)
  have l: "length ?pts = nat n + 1" using n by (simp add: nat_add_distrib)
  have "?pts ! i = tooth_profile_point p (real i / real_of_int n)" if "i \<le> nat n"
    using that n by (subst nth_map) (simp_all add: nat_add_distrib del: upt_Suc)
  then show "\<exists>pts. generate_tooth_profile p n = Inr pts \<and> length pts = nat n + 1 \<and>
         (i \<le> nat n \<longrightarrow>
            pts ! i = tooth_profile_point p (real i / real_of_int n) \<and>
            0 \<le> real i / real_of_int n \<and> real i / real_of_int n \<le> 1)"
    using g l unit_fraction [OF n] by blast
next
  assume n: "2 \<le> n"
  let ?e = "map (\<lambda>i. s_curve_external_point m s (real i / real_of_int (n - 1))) [0..<nat n]"
  let ?i = "map (\<lambda>i. s_curve_internal_point m s (real i / real_of_int (n - 1))) [0..<nat n]"
  have ge: "generate_s_curve_tooth_points m n False s = Inr ?e"
    using generate_s_curve_ge2 [OF n, of m False s] by simp
  have gi: "generate_s_curve_tooth_points m n True s = Inr ?i"
    using generate_s_curve_ge2 [OF n, of m True s] by simp
  have le: "length ?e = nat n" and li: "length ?i = nat n" by simp_all
  have N: "0 < n - 1" using n by simp
  have b: "0 \<le> real i / real_of_int (n - 1) \<and> real i / real_of_int (n - 1) \<le> 1" if "i < nat n"
  proof -
    have "i \<le> nat (n - 1)" using that n by linarith
    then show ?thesis using unit_fraction [OF N] by blast
  qed
  have pe: "?e ! i = s_curve_external_point m s (real i / real_of_int (n - 1))" if "i < nat n"
    using that by simp
  have pi: "?i ! i = s_curve_internal_point m s (real i / real_of_int (n - 1))" if "i < nat n"
    using that by simp
  show "\<exists>ext int.
         generate_s_curve_tooth_points m n False s = Inr ext \<and>
         generate_s_curve_tooth_points m n True s = Inr int \<and>
         length ext = nat n \<and> length int = nat n \<and>
         (i < nat n \<longrightarrow>
            ext ! i = s_curve_external_point m s (real i / real_of_int (n - 1)) \<and>
            int ! i = s_curve_internal_point m s (real i / real_of_int (n - 1)) \<and>
            0 \<le> real i / real_of_int (n - 1) \<and> real i / real_of_int (n - 1) \<le> 1)"
    using ge gi le li b pe pi by blast
qed

theorem tooth_profile_sample_counts_witness:
  "(0::int) < 2 \<and> (2::int) \<le> 2 \<and> (1::nat) \<le> nat 2 \<and> (1::nat) < nat 2 \<and>
   (\<exists>pts. generate_tooth_profile design 2 = Inr pts \<and> length pts = 3 \<and>
      pts ! 1 = tooth_profile_point design (1 / 2)) \<and>
   (\<exists>ext int.
      generate_s_curve_tooth_points (2 / 5) 2 False 0 = Inr ext \<and>
      generate_s_curve_tooth_points (2 / 5) 2 True 0 = Inr int \<and>
      length ext = 2 \<and> length int = 2 \<and>
      ext ! 1 = s_curve_external_point (2 / 5) 0 1 \<and>
      int ! 1 = s_curve_internal_point (2 / 5) 0 1)"
  using tooth_profile_sample_counts [of 2 design 1 "2 / 5" 0]
  by simp

text \<open>
  The claim as stated fails for the external variant of the STEP script: a requested
  density of two gives two samples, not three.
\<close>

theorem sample_count_counterexample:
  "generate_s_curve_tooth_points (2 / 5) 2 False 0 =
     Inr [(- pi / 15, - 2 / 5), (pi / 15, - 2 / 5)] \<and>
   length [(- pi / 15, - 2 / 5 :: real), (pi / 15, - 2 / 5)] \<noteq> nat 2 + 1"
  by (simp add: generate_s_curve_ge2 upt_rec s_curve_external_point_closed_form
      s_tooth_width_def s_pitch_def s_addendum_def s_dedendum_def)

section \<open>Mirror symmetry of the external tooth\<close>

text \<open>
  Claim C10, amended. The tooth profile of the DXF script is symmetric about the tooth
  midline for every \<open>n \<ge> 1\<close>, and the external profile of the STEP script for every
  \<open>n \<ge> 2\<close>: reversing the sequence and negating each \<open>x\<close> gives the sequence back,
  point \<open>i\<close> and its mirror-index point have negated \<open>x\<close> and equal \<open>y\<close>, and the first
  and the last point lie at the root height \<open>- dedendum\<close>.
\<close>

theorem external_profile_mirror_symmetry:
  "(0 < n \<longrightarrow>
      (\<exists>pts. generate_tooth_profile p n = Inr pts \<and> length pts = nat n + 1 \<and>
         map (\<lambda>(x, y). (- x, y)) (rev pts) = pts \<and>
         (i \<le> nat n \<longrightarrow> pts ! (nat n - i) = (- fst (pts ! i), snd (pts ! i))) \<and>
         snd (pts ! 0) = - DEDENDUM p \<and> snd (pts ! nat n) = - DEDENDUM p)) \<and>
   (2 \<le> n \<longrightarrow>
      (\<exists>pts. generate_s_curve_tooth_points m n False s = Inr pts \<and> length pts = nat n \<and>
         map (\<lambda>(x, y). (- x, y)) (rev pts) = pts \<and>
         (i < nat n \<longrightarrow> pts ! (nat n - 1 - i) = (- fst (pts ! i), snd (pts ! i))) \<and>
         snd (pts ! 0) = - s_dedendum m s \<and> snd (pts ! (nat n - 1)) = - s_dedendum m s))"
proof (rule conjI)
  show "0 < n \<longrightarrow>
      (\<exists>pts. generate_tooth_profile p n = Inr pts \<and> length pts = nat n + 1 \<and>
         map (\<lambda>(x, y). (- x, y)) (rev pts) = pts \<and>
         (i \<le> nat n \<longrightarrow> pts ! (nat n - i) = (- fst (pts ! i), snd (pts ! i))) \<and>
         snd (pts ! 0) = - DEDENDUM p \<and> snd (pts ! nat n) = - DEDENDUM p)"
    by (rule impI) (rule tooth_profile_symmetric)
  show "2 \<le> n \<longrightarrow>
      (\<exists>pts. generate_s_curve_tooth_points m n False s = Inr pts \<and> length pts = nat n \<and>
         map (\<lambda>(x, y). (- x, y)) (rev pts) = pts \<and>
         (i < nat n \<longrightarrow> pts ! (nat n - 1 - i) = (- fst (pts ! i), snd (pts ! i))) \<and>
         snd (pts ! 0) = - s_dedendum m s \<and> snd (pts ! (nat n - 1)) = - s_dedendum m s)"
    by (rule impI) (rule s_curve_external_symmetric)
qed

theorem external_profile_mirror_symmetry_witness:
  "(0::int) < 2 \<and> (2::int) \<le> 2 \<and> (0::nat) \<le> nat 2 \<and> (0::nat) < nat 2 \<and>
   (\<exists>pts. generate_tooth_profile design 2 = Inr pts \<and> length pts = 3 \<and>
      map (\<lambda>(x, y). (- x, y)) (rev pts) = pts \<and>
      pts ! 2 = (- fst (pts ! 0), snd (pts ! 0)) \<and>
      snd (pts ! 0) = - (2 / 5) \<and> snd (pts ! 2) = - (2 / 5)) \<and>
   (\<exists>pts. generate_s_curve_tooth_points (2 / 5) 2 False 0 = Inr pts \<and> length pts = 2 \<and>
      map (\<lambda>(x, y). (- x, y)) (rev pts) = pts \<and>
      pts ! 1 = (- fst (pts ! 0), snd (pts ! 0)) \<and>
      snd (pts ! 0) = - (2 / 5) \<and> snd (pts ! 1) = - (2 / 5))"
proof -
  have d: "DEDENDUM design = 2 / 5" by (simp add: DEDENDUM_def design_def)
  have s: "s_dedendum (2 / 5) 0 = 2 / 5" by (simp add: s_dedendum_def)
  have a: "nat 2 + 1 = 3" "nat 2 - 0 = 2" "nat 2 = 2" "nat 2 - 1 - 0 = 1" "nat 2 - 1 = 1"
    by simp_all
  have h: "(0::int) < 2" "(2::int) \<le> 2" "(0::nat) \<le> nat 2" "(0::nat) < nat 2" by simp_all
  note t = external_profile_mirror_symmetry [of 2 design 0 "2 / 5" 0]
  have t1: "\<exists>pts. generate_tooth_profile design 2 = Inr pts \<and> length pts = 3 \<and>
      map (\<lambda>(x, y). (- x, y)) (rev pts) = pts \<and>
      pts ! 2 = (- fst (pts ! 0), snd (pts ! 0)) \<and>
      snd (pts ! 0) = - (2 / 5) \<and> snd (pts ! 2) = - (2 / 5)"
    using t [THEN conjunct1, THEN mp, OF h(1)] unfolding d a by simp
  have t2: "\<exists>pts. generate_s_curve_tooth_points (2 / 5) 2 False 0 = Inr pts \<and> length pts = 2 \<and>
      map (\<lambda>(x, y). (- x, y)) (rev pts) = pts \<and>
      pts ! 1 = (- fst (pts ! 0), snd (pts ! 0)) \<and>
      snd (pts ! 0) = - (2 / 5) \<and> snd (pts ! 1) = - (2 / 5)"
    using t [THEN conjunct2, THEN mp, OF h(2)] unfolding s a by simp
  show ?thesis
    using h t1 t2 by (intro conjI)
qed

text \<open>
  The claim as stated (every \<open>n \<ge> 1\<close>) fails for the STEP script at \<open>n = 1\<close>: the
  first sample divides by \<open>num_points - 1 = 0\<close> and no sequence is returned.
\<close>

theorem mirror_symmetry_counterexample:
  "generate_s_curve_tooth_points (2 / 5) 1 False 0 = Inl ZeroDivisionError"
  by (rule generate_s_curve_one)

section \<open>Validation of the primary inputs\<close>

text \<open>
  Claim C7, amended. The scripts validate none of the primary inputs. The derived
  values are computed from any inputs by the same assignments
  (\<open>Z_FLEX = GEAR_RATIO * TOOTH_DIFFERENCE\<close>, \<open>Z_CIRC = Z_FLEX + TOOTH_DIFFERENCE\<close>),
  and for every gear ratio, every tooth difference and every module other than zero,
  negative ones included, tooth generation proceeds: with the default tooth counts
  and a point count \<open>n \<noteq> 0\<close> the flex spline generator returns
  \<open>nat Z_FLEX * nat (n + 1)\<close> points and the circular spline generator
  \<open>nat Z_CIRC * nat (n + 1)\<close> points. The only rejection is a \<open>ZeroDivisionError\<close> of
  Python itself (point count zero, or a zero pitch radius under a non-empty loop).
\<close>

theorem no_parameter_validation:
  assumes n: "n \<noteq> 0" and m: "MODULE p \<noteq> 0"
  shows "\<exists>flex circ.
     generate_flex_spline_teeth p None n = Inr flex \<and>
     generate_circular_spline_teeth p None n = Inr circ \<and>
     length flex = nat (Z_FLEX p) * nat (n + 1) \<and>
     length circ = nat (Z_CIRC p) * nat (n + 1) \<and>
     Z_FLEX p = GEAR_RATIO p * TOOTH_DIFFERENCE p \<and>
     Z_CIRC p = Z_FLEX p + TOOTH_DIFFERENCE p"
  using flex_teeth_without_validation [OF n m] circ_teeth_without_validation [OF n m]
  by (auto simp add: Z_FLEX_def Z_CIRC_def)

theorem no_parameter_validation_witness:
  "(20::int) \<noteq> 0 \<and>
   MODULE \<lparr>GEAR_RATIO = - 100, TOOTH_DIFFERENCE = - 2, MODULE = - (2 / 5), OUTPUT_TORQUE = 40\<rparr> \<noteq> 0 \<and>
   (\<exists>flex circ.
     generate_flex_spline_teeth
       \<lparr>GEAR_RATIO = - 100, TOOTH_DIFFERENCE = - 2, MODULE = - (2 / 5), OUTPUT_TORQUE = 40\<rparr> None 20 = Inr flex \<and>
     generate_circular_spline_teeth
       \<lparr>GEAR_RATIO = - 100, TOOTH_DIFFERENCE = - 2, MODULE = - (2 / 5), OUTPUT_TORQUE = 40\<rparr> None 20 = Inr circ \<and>
     length flex = 4200 \<and> length circ = 4158)"
proof -
  have n: "(20::int) \<noteq> 0" by simp
  have m: "MODULE \<lparr>GEAR_RATIO = - 100, TOOTH_DIFFERENCE = - 2, MODULE = - (2 / 5), OUTPUT_TORQUE = 40\<rparr> \<noteq> 0"
    by simp
  show ?thesis
    using no_parameter_validation [OF n m] by (simp add: Z_FLEX_def Z_CIRC_def)
qed

text \<open>
  The claim as stated fails: with the module \<open>- 0.4\<close> nothing is rejected and the flex
  spline generator returns 4200 points.
\<close>

theorem parameter_validation_counterexample:
  "MODULE \<lparr>GEAR_RATIO = 100, TOOTH_DIFFERENCE = 2, MODULE = - (2 / 5), OUTPUT_TORQUE = 40\<rparr> \<le> 0 \<and>
   \<not> isl (generate_flex_spline_teeth
       \<lparr>GEAR_RATIO = 100, TOOTH_DIFFERENCE = 2, MODULE = - (2 / 5), OUTPUT_TORQUE = 40\<rparr> None 20) \<and>
   length (projr (generate_flex_spline_teeth
       \<lparr>GEAR_RATIO = 100, TOOTH_DIFFERENCE = 2, MODULE = - (2 / 5), OUTPUT_TORQUE = 40\<rparr> None 20)) = 4200"
proof -
  have n: "(20::int) \<noteq> 0" by simp
  have m: "MODULE \<lparr>GEAR_RATIO = 100, TOOTH_DIFFERENCE = 2, MODULE = - (2 / 5), OUTPUT_TORQUE = 40\<rparr> \<noteq> 0"
    by simp
  show ?thesis
    using flex_teeth_without_validation [OF n m] by (auto simp add: Z_FLEX_def)
qed

section \<open>Validation of the point density\<close>

text \<open>
  Claim C8, amended. No generator checks the point density and none reports a
  degenerate profile. \<open>generate_circle\<close> and \<open>generate_ellipse\<close> return \<open>n + 1\<close> points
  for every \<open>n \<ge> 1\<close>, so also for \<open>n = 1\<close> and \<open>n = 2\<close>, and raise \<open>IndexError\<close> for
  \<open>n \<le> 0\<close>. \<open>generate_tooth_profile\<close> returns \<open>n + 1\<close> points for every \<open>n \<ge> 1\<close>, raises
  \<open>ZeroDivisionError\<close> for \<open>n = 0\<close> and returns the empty list for \<open>n < 0\<close>.
  \<open>generate_s_curve_tooth_points\<close> returns \<open>n\<close> points for every \<open>n \<ge> 2\<close>, raises
  \<open>ZeroDivisionError\<close> for \<open>n = 1\<close> and returns the empty list for \<open>n \<le> 0\<close>.
\<close>

theorem point_density_not_validated:
  "(if 0 < n
    then \<exists>cs es. generate_circle d n = Inr cs \<and> generate_ellipse a b n = Inr es \<and>
           length cs = nat n + 1 \<and> length es = nat n + 1
    else generate_circle d n = Inl IndexError \<and> generate_ellipse a b n = Inl IndexError) \<and>
   (if 0 < n
    then \<exists>pts. generate_tooth_profile p n = Inr pts \<and> length pts = nat (n + 1)
    else if n = 0 then generate_tooth_profile p n = Inl ZeroDivisionError
    else generate_tooth_profile p n = Inr []) \<and>
   (if 2 \<le> n
    then \<exists>pts. generate_s_curve_tooth_points m n internal s = Inr pts \<and> length pts = nat n
    else if n = 1 then generate_s_curve_tooth_points m n internal s = Inl ZeroDivisionError
    else generate_s_curve_tooth_points m n internal s = Inr [])"
proof (intro conjI)
  show "if 0 < n
    then \<exists>cs es. generate_circle d n = Inr cs \<and> generate_ellipse a b n = Inr es \<and>
           length cs = nat n + 1 \<and> length es = nat n + 1
    else generate_circle d n = Inl IndexError \<and> generate_ellipse a b n = Inl IndexError"
    using conic_lengths [of n d a b]
    by (simp add: generate_circle_nonpos generate_ellipse_nonpos)
  show "if 0 < n
    then \<exists>pts. generate_tooth_profile p n = Inr pts \<and> length pts = nat (n + 1)
    else if n = 0 then generate_tooth_profile p n = Inl ZeroDivisionError
    else generate_tooth_profile p n = Inr []"
    using generate_tooth_profile_length [of n p]
    by (simp add: generate_tooth_profile_zero generate_tooth_profile_neg)
  show "if 2 \<le> n
    then \<exists>pts. generate_s_curve_tooth_points m n internal s = Inr pts \<and> length pts = nat n
    else if n = 1 then generate_s_curve_tooth_points m n internal s = Inl ZeroDivisionError
    else generate_s_curve_tooth_points m n internal s = Inr []"
    using s_curve_length [of n m internal s]
    by (simp add: generate_s_curve_one generate_s_curve_nonpos)
qed

theorem point_density_not_validated_witness:
  "(\<exists>cs es. generate_circle 2 1 = Inr cs \<and> generate_ellipse 6 4 1 = Inr es \<and>
      length cs = 2 \<and> length es = 2) \<and>
   (\<exists>pts. generate_tooth_profile design 1 = Inr pts \<and> length pts = 2) \<and>
   generate_s_curve_tooth_points (2 / 5) 1 True 0 = Inl ZeroDivisionError"
  using point_density_not_validated [of 1 2 6 4 design "2 / 5" True 0]
  by (simp add: numeral_2_eq_2)

text \<open>
  The claim as stated fails: a circle of two samples, an ellipse of one sample and a
  tooth profile of density one are returned, not rejected.
\<close>

theorem point_density_counterexample:
  "generate_circle 2 2 = Inr [(1, 0), (- 1, 0), (1, 0)] \<and>
   generate_ellipse 6 4 1 = Inr [(3, 0), (3, 0)] \<and>
   generate_tooth_profile design 1 = Inr [(- pi / 5, - 2 / 5), (pi / 5, - 2 / 5)]"
  by (simp add: generate_circle_pos generate_ellipse_pos upt_rec design_profile_1)

end
